theory Spec2Isabelle
  imports Complex_Main
begin

section \<open>Common conventions\<close>

text \<open>
  The three modules of the repository (\<^verbatim>\<open>syntstar.py\<close>, \<^verbatim>\<open>psf_worker.py\<close> and
  \<^verbatim>\<open>pipe/psf.py\<close>) work on numpy arrays of float64. Exceptions of the Python code are
  values of the type \<open>exn\<close>; a function that can raise returns \<open>exn + 'a\<close> with \<open>Inl\<close>
  for the exception.
\<close>

datatype exn = IndexError | ValueError | UnboundLocalError | LinAlgError | ShapeMismatch

text \<open>Python's \<^verbatim>\<open>xs[i]\<close>: a negative index counts from the end, out of range raises.\<close>

definition py_index :: "'a list \<Rightarrow> int \<Rightarrow> exn + 'a" where
  "py_index xs i =
     (let n = int (length xs); k = (if i < 0 then n + i else i)
      in if 0 \<le> k \<and> k < n then Inr (xs ! nat k) else Inl IndexError)"

text \<open>Python's \<^verbatim>\<open>xs[a:b]\<close>: negative bounds count from the end, all bounds are clipped.\<close>

definition py_slice :: "'a list \<Rightarrow> int \<Rightarrow> int \<Rightarrow> 'a list" where
  "py_slice xs a b =
     (let n = int (length xs);
          a' = (if a < 0 then max (a + n) 0 else min a n);
          b' = (if b < 0 then max (b + n) 0 else min b n)
      in take (nat (b' - a')) (drop (nat a') xs))"

text \<open>Python's \<^verbatim>\<open>range(a, b)\<close>.\<close>

definition py_range :: "int \<Rightarrow> int \<Rightarrow> int list" where
  "py_range a b = [a..b - 1]"

text \<open>Python's \<^verbatim>\<open>int(x)\<close> on a float truncates towards zero.\<close>

definition py_int :: "real \<Rightarrow> int" where
  "py_int x = (if 0 \<le> x then \<lfloor>x\<rfloor> else \<lceil>x\<rceil>)"

text \<open>
  \<^verbatim>\<open>np.linspace(start, stop, num)\<close>: \<open>num\<close> evenly spaced samples, the end point
  included; a single sample is \<open>start\<close>.
\<close>

definition linspace :: "real \<Rightarrow> real \<Rightarrow> nat \<Rightarrow> real list" where
  "linspace start stop num =
     (if num = 1 then [start]
      else map (\<lambda>i. start + real i * ((stop - start) / real (num - 1))) [0..<num])"

section \<open>syntstar: the synthetic background renderer\<close>

text \<open>
  Floats of this module are modelled as reals (exact arithmetic). A two-dimensional
  array is the list of its rows. The catalogue arrays \<^verbatim>\<open>xpos\<close>, \<^verbatim>\<open>ypos\<close>, \<^verbatim>\<open>fscale\<close>
  and \<^verbatim>\<open>Teff\<close> are cut by \<^verbatim>\<open>read_starcat\<close> from one table with one slice, so the
  catalogue is the list of its entries; \<^verbatim>\<open>catsize\<close> is its length.
\<close>

type_synonym img = "real list list"

record star =
  xpos :: real
  ypos :: real
  fscale :: real
  Teff :: real

record star_bg =
  stars :: "star list"
  shape :: "nat \<times> nat"

definition catsize :: "star_bg \<Rightarrow> int" where
  "catsize self = int (length (stars self))"

text \<open>
  A PSF function is called with two coordinate arrays (row offsets, column offsets) and
  returns the surface sampled on the grid they span: entry \<open>(a, b)\<close> of the result is
  the surface at \<open>(ys ! a, xs ! b)\<close>.
\<close>

type_synonym psf = "real \<Rightarrow> real \<Rightarrow> real"

definition deg2rad :: "real \<Rightarrow> real" where
  "deg2rad d = d * pi / 180"

definition rad2deg :: "real \<Rightarrow> real" where
  "rad2deg r = r * 180 / pi"

definition rotate_position :: "real \<Rightarrow> real \<Rightarrow> real \<Rightarrow> real \<times> real" where
  "rotate_position x y rolldeg =
     (let rollrad = deg2rad rolldeg;
          cosa = cos rollrad;
          sina = sin rollrad;
          xroll = x * cosa + y * sina;
          yroll = - x * sina + y * cosa
      in (xroll, yroll))"

definition derotate_position :: "real \<Rightarrow> real \<Rightarrow> real \<Rightarrow> real \<times> real" where
  "derotate_position xroll yroll rolldegs = rotate_position xroll yroll (- rolldegs)"

text \<open>\<^verbatim>\<open>rotate_cat\<close> rotates the two position arrays elementwise.\<close>

definition rotate_cat :: "star_bg \<Rightarrow> real \<Rightarrow> real list \<times> real list" where
  "rotate_cat self rolldeg =
     (map (\<lambda>s. fst (rotate_position (xpos s) (ypos s) rolldeg)) (stars self),
      map (\<lambda>s. snd (rotate_position (xpos s) (ypos s) rolldeg)) (stars self))"

definition zeros :: "nat \<times> nat \<Rightarrow> img" where
  "zeros shp = replicate (fst shp) (replicate (snd shp) 0)"

text \<open>The brightness tiers of \<^verbatim>\<open>image\<close> (the \<^verbatim>\<open>if/elif/else\<close> on \<^verbatim>\<open>fscale[n]\<close>).\<close>

definition psf_rad_tier :: "real \<Rightarrow> int \<Rightarrow> int" where
  "psf_rad_tier f max_psf_rad =
     (if f > 1 / 10 then min 70 max_psf_rad
      else if f > 1 / 1000 then min 50 max_psf_rad
      else min 30 max_psf_rad)"

text \<open>
  \<^verbatim>\<open>psf_mat[xmat**2 + ymat**2 > psf_rad**2] = 0\<close> on \<^verbatim>\<open>psf_mat = psf_fun(ddy, ddx)\<close>, then
  the scaling by \<^verbatim>\<open>fscale[n]\<close>.
\<close>

definition stamp :: "psf \<Rightarrow> real \<Rightarrow> int \<Rightarrow> real list \<Rightarrow> real list \<Rightarrow> img" where
  "stamp psf_fun f psf_rad ddy ddx =
     map (\<lambda>y. map (\<lambda>x. f * (if x\<^sup>2 + y\<^sup>2 > (real_of_int psf_rad)\<^sup>2 then 0 else psf_fun y x)) ddx) ddy"

text \<open>
  \<^verbatim>\<open>ret_img[j0:j1, i0:i1] += m\<close> for \<open>0 \<le> j0\<close>, \<open>0 \<le> i0\<close> and a block \<open>m\<close> of the
  shape of the slice: every pixel of the slice gets the entry of \<open>m\<close> added.
\<close>

definition add_block :: "img \<Rightarrow> nat \<Rightarrow> nat \<Rightarrow> img \<Rightarrow> img" where
  "add_block ret_img j0 i0 m =
     map (\<lambda>r. map (\<lambda>c.
            if j0 \<le> r \<and> r < j0 + length m \<and> i0 \<le> c \<and> c < i0 + length (m ! (r - j0))
            then ret_img ! r ! c + m ! (r - j0) ! (c - i0)
            else ret_img ! r ! c) [0..<length (ret_img ! r)]) [0..<length ret_img]"

text \<open>The body of the loop over \<^verbatim>\<open>id_range\<close> in \<^verbatim>\<open>image\<close>, for the catalogue index \<open>n\<close>.\<close>

definition draw_star ::
  "star_bg \<Rightarrow> real \<Rightarrow> real \<Rightarrow> real \<Rightarrow> psf \<Rightarrow> nat \<times> nat \<Rightarrow> real \<Rightarrow> int \<Rightarrow> int \<Rightarrow> img
     \<Rightarrow> exn + img" where
  "draw_star self x0 y0 rolldeg psf_fun shp limflux max_psf_rad n ret_img =
     (let (dx, dy) = rotate_cat self rolldeg;
          xcoo = map (\<lambda>c. real c - x0) [0..<snd shp];
          ycoo = map (\<lambda>r. real r - y0) [0..<fst shp]
      in case py_index (map fscale (stars self)) n of
           Inl e \<Rightarrow> Inl e
         | Inr f \<Rightarrow>
             if f < limflux then Inr ret_img
             else
               let psf_rad = psf_rad_tier f max_psf_rad in
               (case py_index dx n of
                  Inl e \<Rightarrow> Inl e
                | Inr dxn \<Rightarrow>
                    let i = py_int (x0 + dxn);
                        i0 = i - psf_rad
                    in if i0 \<ge> int (snd shp) then Inr ret_img
                       else
                         let i1 = i + psf_rad
                         in if i1 \<le> 0 then Inr ret_img
                            else
                              let i0 = max i0 0;
                                  i1 = min i1 (int (snd shp))
                              in (case py_index dy n of
                                    Inl e \<Rightarrow> Inl e
                                  | Inr dyn \<Rightarrow>
                                      let j = py_int (y0 + dyn);
                                          j0 = j - psf_rad
                                      in if j0 \<ge> int (fst shp) then Inr ret_img
                                         else
                                           let j1 = j + psf_rad
                                           in if j1 \<le> 0 then Inr ret_img
                                              else
                                                let j0 = max j0 0;
                                                    j1 = min j1 (int (fst shp));
                                                    ddx = map (\<lambda>v. v - dxn) (py_slice xcoo i0 i1);
                                                    ddy = map (\<lambda>v. v - dyn) (py_slice ycoo j0 j1)
                                                in Inr (add_block ret_img (nat j0) (nat i0)
                                                          (stamp psf_fun f psf_rad ddy ddx)))))"

fun image_loop ::
  "star_bg \<Rightarrow> real \<Rightarrow> real \<Rightarrow> real \<Rightarrow> psf \<Rightarrow> nat \<times> nat \<Rightarrow> real \<Rightarrow> int \<Rightarrow> int list \<Rightarrow> img
     \<Rightarrow> exn + img" where
  "image_loop self x0 y0 rolldeg psf_fun shp limflux max_psf_rad [] ret_img = Inr ret_img"
| "image_loop self x0 y0 rolldeg psf_fun shp limflux max_psf_rad (n # ns) ret_img =
     (case draw_star self x0 y0 rolldeg psf_fun shp limflux max_psf_rad n ret_img of
        Inl e \<Rightarrow> Inl e
      | Inr ret_img' \<Rightarrow> image_loop self x0 y0 rolldeg psf_fun shp limflux max_psf_rad ns ret_img')"

text \<open>The indices \<^verbatim>\<open>id_range\<close> that \<^verbatim>\<open>image\<close> loops over.\<close>

definition id_range :: "star_bg \<Rightarrow> int \<Rightarrow> int option \<Rightarrow> int list" where
  "id_range self target single_id =
     (case single_id of None \<Rightarrow> py_range target (catsize self) | Some k \<Rightarrow> [k])"

text \<open>\<^verbatim>\<open>star_bg.image\<close>; the argument \<open>shp\<close> is \<^verbatim>\<open>shape\<close>, \<open>None\<close> standing for Python's \<^verbatim>\<open>None\<close>.\<close>

definition image_stars ::
  "star_bg \<Rightarrow> real \<Rightarrow> real \<Rightarrow> real \<Rightarrow> psf \<Rightarrow> (nat \<times> nat) option \<Rightarrow> int \<Rightarrow> real \<Rightarrow> int option
     \<Rightarrow> int \<Rightarrow> exn + img" where
  "image_stars self x0 y0 rolldeg psf_fun shp target limflux single_id max_psf_rad =
     (let shp = (case shp of None \<Rightarrow> shape self | Some s \<Rightarrow> s);
          ret_img = zeros shp;
          ids = id_range self target single_id
      in image_loop self x0 y0 rolldeg psf_fun shp limflux max_psf_rad ids ret_img)"

text \<open>
  \<^verbatim>\<open>star_bg.rotblur\<close>. The number of renders \<open>N\<close> and the roll angles are named, the
  rest follows the source. \<^verbatim>\<open>np.max(shape)\<close> is a numpy integer, so a division by zero
  in \<^verbatim>\<open>resolution\<close> gives an infinite resolution, \<^verbatim>\<open>blurdeg / resolution\<close> is then zero
  and \<open>N = 1\<close>. A negative \<open>N\<close> makes \<^verbatim>\<open>np.linspace\<close> raise.
\<close>

definition rotblur_N :: "nat \<times> nat \<Rightarrow> real \<Rightarrow> real \<Rightarrow> int" where
  "rotblur_N shp blurdeg oversample =
     (if max (fst shp) (snd shp) = 0 \<or> oversample = 0 then 1
      else
        let resolution = rad2deg (1 / real (max (fst shp) (snd shp))) / oversample
        in py_int (blurdeg / resolution) + 1)"

definition rotblur_rolldegs :: "real \<Rightarrow> real \<Rightarrow> int \<Rightarrow> real list" where
  "rotblur_rolldegs rolldeg blurdeg N =
     map (\<lambda>t. rolldeg + 0.5 * blurdeg * t) (linspace (- 1) 1 (nat N))"

text \<open>\<^verbatim>\<open>ret_img += im / N\<close> on two arrays of one shape.\<close>

definition add_scaled :: "img \<Rightarrow> img \<Rightarrow> real \<Rightarrow> img" where
  "add_scaled ret_img im N = map2 (map2 (\<lambda>a b. a + b / N)) ret_img im"

fun rotblur_loop ::
  "star_bg \<Rightarrow> real \<Rightarrow> real \<Rightarrow> psf \<Rightarrow> nat \<times> nat \<Rightarrow> int \<Rightarrow> real \<Rightarrow> int option \<Rightarrow> int \<Rightarrow> real
     \<Rightarrow> real list \<Rightarrow> img \<Rightarrow> exn + img" where
  "rotblur_loop self x0 y0 psf_fun shp target limflux single_id max_psf_rad N [] ret_img =
     Inr ret_img"
| "rotblur_loop self x0 y0 psf_fun shp target limflux single_id max_psf_rad N (roll # rolls) ret_img =
     (case image_stars self x0 y0 roll psf_fun (Some shp) target limflux single_id max_psf_rad of
        Inl e \<Rightarrow> Inl e
      | Inr im \<Rightarrow>
          rotblur_loop self x0 y0 psf_fun shp target limflux single_id max_psf_rad N rolls
            (add_scaled ret_img im N))"

definition rotblur ::
  "star_bg \<Rightarrow> real \<Rightarrow> real \<Rightarrow> real \<Rightarrow> real \<Rightarrow> psf \<Rightarrow> real \<Rightarrow> (nat \<times> nat) option \<Rightarrow> int \<Rightarrow> real
     \<Rightarrow> int option \<Rightarrow> int \<Rightarrow> exn + img" where
  "rotblur self x0 y0 rolldeg blurdeg psf_fun oversample shp target limflux single_id max_psf_rad =
     (let shp = (case shp of None \<Rightarrow> shape self | Some s \<Rightarrow> s);
          N = rotblur_N shp blurdeg oversample
      in if N < 0 then Inl ValueError
         else
           let rolldegs = rotblur_rolldegs rolldeg blurdeg N;
               ret_img = zeros shp
           in rotblur_loop self x0 y0 psf_fun shp target limflux single_id max_psf_rad
                (real_of_int N) rolldegs ret_img)"

text \<open>An array of the shape \<open>shp\<close> (rows, columns).\<close>

definition has_shape :: "nat \<times> nat \<Rightarrow> img \<Rightarrow> bool" where
  "has_shape shp im = (length im = fst shp \<and> list_all (\<lambda>row. length row = snd shp) im)"

text \<open>
  For the statements about \<^verbatim>\<open>image\<close>: the integer position \<open>(i, j)\<close> (column, row) the
  star \<open>s\<close> is drawn at, the pixels \<open>(row, column)\<close> of its stamp (the square
  \<^verbatim>\<open>[j - psf_rad, j + psf_rad) x [i - psf_rad, i + psf_rad)\<close>), the pixels of an image, and
  what the star adds to the pixel \<open>(r, c)\<close>.
\<close>

definition stamp_centre :: "real \<Rightarrow> real \<Rightarrow> real \<Rightarrow> star \<Rightarrow> int \<times> int" where
  "stamp_centre x0 y0 rolldeg s =
     (py_int (x0 + fst (rotate_position (xpos s) (ypos s) rolldeg)),
      py_int (y0 + snd (rotate_position (xpos s) (ypos s) rolldeg)))"

definition stamp_pixels :: "real \<Rightarrow> real \<Rightarrow> real \<Rightarrow> int \<Rightarrow> star \<Rightarrow> (int \<times> int) set" where
  "stamp_pixels x0 y0 rolldeg max_psf_rad s =
     {(r, c). snd (stamp_centre x0 y0 rolldeg s) - psf_rad_tier (fscale s) max_psf_rad \<le> r
            \<and> r < snd (stamp_centre x0 y0 rolldeg s) + psf_rad_tier (fscale s) max_psf_rad
            \<and> fst (stamp_centre x0 y0 rolldeg s) - psf_rad_tier (fscale s) max_psf_rad \<le> c
            \<and> c < fst (stamp_centre x0 y0 rolldeg s) + psf_rad_tier (fscale s) max_psf_rad}"

definition image_pixels :: "nat \<times> nat \<Rightarrow> (int \<times> int) set" where
  "image_pixels shp = {(r, c). 0 \<le> r \<and> r < int (fst shp) \<and> 0 \<le> c \<and> c < int (snd shp)}"

definition star_contrib ::
  "real \<Rightarrow> real \<Rightarrow> real \<Rightarrow> psf \<Rightarrow> real \<Rightarrow> int \<Rightarrow> star \<Rightarrow> nat \<Rightarrow> nat \<Rightarrow> real" where
  "star_contrib x0 y0 rolldeg psf_fun limflux max_psf_rad s r c =
     (let x = real c - x0 - fst (rotate_position (xpos s) (ypos s) rolldeg);
          y = real r - y0 - snd (rotate_position (xpos s) (ypos s) rolldeg)
      in if fscale s < limflux then 0
         else if (int r, int c) \<in> stamp_pixels x0 y0 rolldeg max_psf_rad s
         then fscale s *
                (if x\<^sup>2 + y\<^sup>2 > (real_of_int (psf_rad_tier (fscale s) max_psf_rad))\<^sup>2 then 0
                 else psf_fun y x)
         else 0)"

text \<open>The catalogue entry the index \<open>n\<close> of \<^verbatim>\<open>id_range\<close> stands for.\<close>

definition entry_contrib ::
  "star_bg \<Rightarrow> real \<Rightarrow> real \<Rightarrow> real \<Rightarrow> psf \<Rightarrow> real \<Rightarrow> int \<Rightarrow> nat \<Rightarrow> nat \<Rightarrow> int \<Rightarrow> real" where
  "entry_contrib self x0 y0 rolldeg psf_fun limflux max_psf_rad r c n =
     (case py_index (stars self) n of
        Inl e \<Rightarrow> 0
      | Inr s \<Rightarrow> star_contrib x0 y0 rolldeg psf_fun limflux max_psf_rad s r c)"

text \<open>
  For the proofs: whether the loop body skips the star \<open>s\<close>, and the block that an
  unskipped star adds, with the slices written out.
\<close>

definition star_block :: "real \<Rightarrow> real \<Rightarrow> real \<Rightarrow> psf \<Rightarrow> nat \<times> nat \<Rightarrow> int \<Rightarrow> star \<Rightarrow> img" where
  "star_block x0 y0 rolldeg psf_fun shp max_psf_rad s =
     (let dxn = fst (rotate_position (xpos s) (ypos s) rolldeg);
          dyn = snd (rotate_position (xpos s) (ypos s) rolldeg);
          rad = psf_rad_tier (fscale s) max_psf_rad;
          i = fst (stamp_centre x0 y0 rolldeg s);
          j = snd (stamp_centre x0 y0 rolldeg s)
      in map (\<lambda>r. map (\<lambda>c. fscale s *
                (if (real c - x0 - dxn)\<^sup>2 + (real r - y0 - dyn)\<^sup>2 > (real_of_int rad)\<^sup>2 then 0
                 else psf_fun (real r - y0 - dyn) (real c - x0 - dxn)))
              [nat (max (i - rad) 0)..<nat (min (i + rad) (int (snd shp)))])
           [nat (max (j - rad) 0)..<nat (min (j + rad) (int (fst shp)))])"

definition star_skipped :: "real \<Rightarrow> real \<Rightarrow> real \<Rightarrow> nat \<times> nat \<Rightarrow> real \<Rightarrow> int \<Rightarrow> star \<Rightarrow> bool" where
  "star_skipped x0 y0 rolldeg shp limflux max_psf_rad s =
     (let rad = psf_rad_tier (fscale s) max_psf_rad;
          i = fst (stamp_centre x0 y0 rolldeg s);
          j = snd (stamp_centre x0 y0 rolldeg s)
      in fscale s < limflux \<or> i - rad \<ge> int (snd shp) \<or> i + rad \<le> 0
         \<or> j - rad \<ge> int (fst shp) \<or> j + rad \<le> 0)"

text \<open>A catalogue of three stars on a one-pixel image, for the concrete instances.\<close>

definition wcat :: star_bg where
  "wcat = \<lparr>stars = [\<lparr>xpos = 0, ypos = 0, fscale = 1, Teff = 0\<rparr>,
                    \<lparr>xpos = 0, ypos = 0, fscale = 1 / 2, Teff = 0\<rparr>,
                    \<lparr>xpos = 1000, ypos = 0, fscale = 1 / 2, Teff = 0\<rparr>], shape = (1, 1)\<rparr>"

section \<open>psf_worker: the PSF library builder\<close>

text \<open>
  Floats of this module are modelled as reals. The table \<^verbatim>\<open>pix\<close> has one row per sample
  with the columns x, y, value and uncertainty.
\<close>

record sample =
  sx :: real
  sy :: real
  sval :: real
  serr :: real


















section \<open>pipe/psf: the fitters\<close>

text \<open>
  In this module the inputs of a fit (frame, noise, PSF values, positions and radii) are
  finite floats, modelled as reals. What the fit computes can be infinite or nan (a
  division by a zero noise, the output of the linear solver, the flux normaliser that
  the source tests with \<^verbatim>\<open>np.isnan\<close>), so computed values are of the type \<open>fl\<close>: a real,
  an infinity or nan, with the IEEE rules for the special values. Rounding and signed
  zeros are not modelled (a nonzero value over zero is the infinity of its sign).
\<close>

datatype fl = Fin real | PInf | NInf | NaN

fun fadd :: "fl \<Rightarrow> fl \<Rightarrow> fl" where
  "fadd NaN y = NaN"
| "fadd x NaN = NaN"
| "fadd (Fin a) (Fin b) = Fin (a + b)"
| "fadd (Fin a) PInf = PInf"
| "fadd (Fin a) NInf = NInf"
| "fadd PInf (Fin b) = PInf"
| "fadd NInf (Fin b) = NInf"
| "fadd PInf PInf = PInf"
| "fadd NInf NInf = NInf"
| "fadd PInf NInf = NaN"
| "fadd NInf PInf = NaN"

text \<open>The infinity of the sign of \<open>a\<close>, nan for zero: \<open>a\<close> times or over an unbounded value.\<close>

definition inf_of :: "real \<Rightarrow> fl" where
  "inf_of a = (if a = 0 then NaN else if 0 < a then PInf else NInf)"

fun fneg :: "fl \<Rightarrow> fl" where
  "fneg (Fin a) = Fin (- a)"
| "fneg PInf = NInf"
| "fneg NInf = PInf"
| "fneg NaN = NaN"

fun fmul :: "fl \<Rightarrow> fl \<Rightarrow> fl" where
  "fmul NaN y = NaN"
| "fmul x NaN = NaN"
| "fmul (Fin a) (Fin b) = Fin (a * b)"
| "fmul (Fin a) PInf = inf_of a"
| "fmul (Fin a) NInf = fneg (inf_of a)"
| "fmul PInf (Fin b) = inf_of b"
| "fmul NInf (Fin b) = fneg (inf_of b)"
| "fmul PInf PInf = PInf"
| "fmul NInf NInf = PInf"
| "fmul PInf NInf = NInf"
| "fmul NInf PInf = NInf"

fun fdiv :: "fl \<Rightarrow> fl \<Rightarrow> fl" where
  "fdiv NaN y = NaN"
| "fdiv x NaN = NaN"
| "fdiv (Fin a) (Fin b) = (if b = 0 then inf_of a else Fin (a / b))"
| "fdiv (Fin a) PInf = Fin 0"
| "fdiv (Fin a) NInf = Fin 0"
| "fdiv PInf (Fin b) = (if 0 \<le> b then PInf else NInf)"
| "fdiv NInf (Fin b) = (if 0 \<le> b then NInf else PInf)"
| "fdiv PInf PInf = NaN"
| "fdiv NInf NInf = NaN"
| "fdiv PInf NInf = NaN"
| "fdiv NInf PInf = NaN"

definition isnan :: "fl \<Rightarrow> bool" where
  "isnan x = (x = NaN)"


text \<open>\<^verbatim>\<open>np.sum\<close> of a one-dimensional array.\<close>

definition fsum :: "fl list \<Rightarrow> fl" where
  "fsum xs = foldl fadd (Fin 0) xs"

text \<open>
  \<^verbatim>\<open>a * b\<close> on one-dimensional arrays: elementwise on equal lengths, an array of length one
  is broadcast, other lengths raise.
\<close>

definition np_mul :: "fl list \<Rightarrow> fl list \<Rightarrow> exn + fl list" where
  "np_mul xs ys =
     (if length xs = length ys then Inr (map2 fmul xs ys)
      else if length xs = 1 then Inr (map (fmul (hd xs)) ys)
      else if length ys = 1 then Inr (map (\<lambda>x. fmul x (hd ys)) xs)
      else Inl ValueError)"

text \<open>
  The design matrix \<^verbatim>\<open>psfs\<close> is filled column by column (\<^verbatim>\<open>psfs[:, n] = ...\<close>); it is
  kept as the list of its columns, each of the length \<^verbatim>\<open>Npix\<close>.
\<close>

type_synonym mat = "fl list list"

definition np_zeros :: "nat \<Rightarrow> nat \<Rightarrow> mat" where
  "np_zeros Npix ncols = replicate ncols (replicate Npix (Fin 0))"

text \<open>
  The linear solvers \<^verbatim>\<open>numpy.linalg.lstsq\<close> and \<^verbatim>\<open>scipy.optimize.nnls\<close> are parameters of
  the model. A call can fail on one attempt and succeed on the next with the same
  arguments, so a solver takes and returns a state \<open>'s\<close> of its own.
\<close>

type_synonym 's solver = "mat \<Rightarrow> fl list \<Rightarrow> 's \<Rightarrow> (exn + fl list) \<times> 's"

text \<open>\<^verbatim>\<open>_least_square\<close>; the bare \<^verbatim>\<open>except\<close> catches every exception of the first call.\<close>

definition least_square ::
  "'s solver \<Rightarrow> 's solver \<Rightarrow> mat \<Rightarrow> fl list \<Rightarrow> bool \<Rightarrow> 's \<Rightarrow> (exn + fl list) \<times> 's" where
  "least_square lstsq nnls eq_mat res_vec non_negative s =
     (if non_negative then nnls eq_mat res_vec s
      else
        (case lstsq eq_mat res_vec s of
           (Inr x, s1) \<Rightarrow> (Inr x, s1)
         | (Inl e, s1) \<Rightarrow> lstsq eq_mat res_vec s1))"

text \<open>
  For the statements about the solver: a solver that keeps, next to its own state, the
  list of the calls made to it.
\<close>

definition logged :: "'s solver \<Rightarrow> ((mat \<times> fl list) list \<times> 's) solver" where
  "logged f eq_mat res_vec ls =
     (case f eq_mat res_vec (snd ls) of
        (r, s1) \<Rightarrow> (r, (fst ls @ [(eq_mat, res_vec)], s1)))"

text \<open>A solver that fails on its first call and returns zeros afterwards; one that always fails.\<close>

definition flaky :: "nat solver" where
  "flaky eq_mat res_vec k =
     (if k = 0 then (Inl LinAlgError, Suc k)
      else (Inr (replicate (length eq_mat) (Fin 0)), Suc k))"

definition broken :: "nat solver" where
  "broken eq_mat res_vec k = (Inl LinAlgError, Suc k)"

text \<open>
  An array of the shape of the frame is a function of the pixel \<open>(row, column)\<close>; the
  frame, the noise map and the mask have one shape \<open>shp\<close>. Boolean-mask indexing
  \<^verbatim>\<open>a[aperture]\<close> lists the selected pixels row by row.
\<close>

type_synonym 'a arr2 = "nat \<times> nat \<Rightarrow> 'a"

definition pixels :: "nat \<times> nat \<Rightarrow> (nat \<times> nat) list" where
  "pixels shp = List.product [0..<fst shp] [0..<snd shp]"

definition index_by :: "bool arr2 \<Rightarrow> nat \<times> nat \<Rightarrow> 'a arr2 \<Rightarrow> 'a list" where
  "index_by aperture shp a = map a (filter aperture (pixels shp))"

text \<open>
  Modelled from the spec: \<^verbatim>\<open>coo_mat\<close> of \<^verbatim>\<open>pipe.reduce\<close> is not among the sources. It gives
  the coordinates of every pixel relative to the centre \<open>(xc, yc)\<close>, the row index being
  y and the column index x.
\<close>

definition coo_mat :: "nat \<times> nat \<Rightarrow> real \<Rightarrow> real \<Rightarrow> real arr2 \<times> real arr2" where
  "coo_mat shp xc yc = (\<lambda>(i, j). real j - xc, \<lambda>(i, j). real i - yc)"

text \<open>
  The offset grid: \<^verbatim>\<open>xkern\<close> and the flattened \<^verbatim>\<open>np.meshgrid(xkern, xkern)\<close>. A negative
  number of samples makes \<^verbatim>\<open>np.linspace\<close> raise.
\<close>

definition kernel_grid :: "real \<Rightarrow> int \<Rightarrow> exn + real list \<times> real list \<times> real list" where
  "kernel_grid krn_scl krn_rad =
     (if 2 * krn_rad + 1 < 0 then Inl ValueError
      else
        let xkern = linspace (- krn_scl * real_of_int krn_rad) (krn_scl * real_of_int krn_rad)
                      (nat (2 * krn_rad + 1));
            xk = concat (replicate (length xkern) xkern);
            yk = concat (map (\<lambda>v. replicate (length xkern) v) xkern)
        in Inr (xkern, xk, yk))"

text \<open>
  \<^verbatim>\<open>psf_fun(ycoo - ykn, xcoo - xkn)\<close> with \<^verbatim>\<open>xcoo = np.arange(...) - xc\<close> and
  \<^verbatim>\<open>ycoo = np.arange(...) - yc\<close>: the PSF sampled on the pixels of the frame.
\<close>

definition psf_on_frame :: "psf \<Rightarrow> real \<Rightarrow> real \<Rightarrow> real \<Rightarrow> real \<Rightarrow> real arr2" where
  "psf_on_frame psf_fun xc yc xkn ykn = (\<lambda>(i, j). psf_fun (real i - yc - ykn) (real j - xc - xkn))"

text \<open>\<^verbatim>\<open>psfs[:, n] = col\<close>, and a pixel array over the noise, \<^verbatim>\<open>a[aperture] / nvec\<close>.\<close>

definition set_col :: "mat \<Rightarrow> nat \<Rightarrow> fl list \<Rightarrow> mat" where
  "set_col psfs n col = psfs[n := col]"

definition over_noise :: "fl list \<Rightarrow> real list \<Rightarrow> fl list" where
  "over_noise vec nvec = map2 (\<lambda>v nv. fdiv v (Fin nv)) vec nvec"

text \<open>\<^verbatim>\<open>np.reshape(v, (n, n))\<close> of a vector of \<open>n * n\<close> entries.\<close>

definition reshape_square :: "nat \<Rightarrow> 'a list \<Rightarrow> 'a list list" where
  "reshape_square n v = map (\<lambda>a. take n (drop (a * n) v)) [0..<n]"

subsection \<open>The single-source fitter\<close>

definition fit_aperture :: "nat \<times> nat \<Rightarrow> bool arr2 \<Rightarrow> real \<Rightarrow> real \<Rightarrow> real \<Rightarrow> bool arr2" where
  "fit_aperture shp msk xc yc radius =
     (let (xmat, ymat) = coo_mat shp xc yc
      in (\<lambda>p. ((xmat p)\<^sup>2 + (ymat p)\<^sup>2 \<le> radius\<^sup>2) \<and> msk p))"

text \<open>
  The design matrix of the first pass: zeros, the background column if \<^verbatim>\<open>bg_fit == 0\<close>,
  then one column per offset of the grid, from the first PSF of the list.
\<close>

definition fit_design1 ::
  "psf \<Rightarrow> nat \<times> nat \<Rightarrow> bool arr2 \<Rightarrow> real arr2 \<Rightarrow> real \<Rightarrow> real \<Rightarrow> real list \<Rightarrow> real list \<Rightarrow> int
     \<Rightarrow> mat" where
  "fit_design1 psf0 shp aperture noise xc yc xk yk bg_fit =
     (let nvec = index_by aperture shp noise;
          Npix = length nvec;
          Nk = length xk;
          psfs = (if bg_fit = 0
                  then set_col (np_zeros Npix (Nk + 1)) Nk (map (\<lambda>nv. fdiv (Fin 1) (Fin nv)) nvec)
                  else np_zeros Npix Nk)
      in fold (\<lambda>n psfs.
                 set_col psfs n
                   (over_noise
                      (index_by aperture shp (\<lambda>p. Fin (psf_on_frame psf0 xc yc (xk ! n) (yk ! n) p)))
                      nvec))
           [0..<Nk] psfs)"

text \<open>
  The inner loop of the second pass, \<^verbatim>\<open>psf += kvec[n] * psf_list[m](...)\<close> from zeros.
\<close>

definition blurred :: "psf \<Rightarrow> fl list \<Rightarrow> real \<Rightarrow> real \<Rightarrow> real list \<Rightarrow> real list \<Rightarrow> fl arr2" where
  "blurred psf_m kvec xc yc xk yk =
     (\<lambda>p. foldl (\<lambda>acc n. fadd acc (fmul (kvec ! n) (Fin (psf_on_frame psf_m xc yc (xk ! n) (yk ! n) p))))
            (Fin 0) [0..<length xk])"

definition fit_design2 ::
  "psf list \<Rightarrow> fl list \<Rightarrow> nat \<times> nat \<Rightarrow> bool arr2 \<Rightarrow> real arr2 \<Rightarrow> real \<Rightarrow> real \<Rightarrow> real list
     \<Rightarrow> real list \<Rightarrow> int \<Rightarrow> mat" where
  "fit_design2 psf_list kvec shp aperture noise xc yc xk yk bg_fit =
     (let nvec = index_by aperture shp noise;
          Npix = length nvec;
          Npsf = length psf_list;
          psfs = (if bg_fit = 0
                  then set_col (np_zeros Npix (Npsf + 1)) Npsf (map (\<lambda>nv. fdiv (Fin 1) (Fin nv)) nvec)
                  else np_zeros Npix Npsf)
      in fold (\<lambda>m psfs.
                 set_col psfs m
                   (over_noise (index_by aperture shp (blurred (psf_list ! m) kvec xc yc xk yk)) nvec))
           [0..<Npsf] psfs)"

text \<open>The fitted PSF: \<^verbatim>\<open>psf += w[m] * kvec[n] * psf_list[m](...)\<close> over \<open>m\<close> and \<open>n\<close>.\<close>

definition composite :: "psf list \<Rightarrow> fl list \<Rightarrow> fl list \<Rightarrow> real \<Rightarrow> real \<Rightarrow> real list \<Rightarrow> real list \<Rightarrow> fl arr2" where
  "composite psf_list kvec w xc yc xk yk =
     (\<lambda>p. foldl (\<lambda>acc (m, n).
                    fadd acc (fmul (fmul (w ! m) (kvec ! n))
                                (Fin (psf_on_frame (psf_list ! m) xc yc (xk ! n) (yk ! n) p))))
            (Fin 0) (List.product [0..<length psf_list] [0..<length xk]))"

record fit_result =
  psf_image :: "fl arr2"
  background :: fl
  kmat :: "fl list list"
  flux_scale :: fl
  coeffs :: "fl list"

text \<open>
  The test of the flux normaliser \<^verbatim>\<open>wsum\<close>: the normaliser to divide by, and what is printed.
\<close>

definition clamp_wsum :: "fl \<Rightarrow> fl \<times> string list" where
  "clamp_wsum wsum =
     (if isnan wsum then (Fin 1, [''Warning: wsum == NaN encountered''])
      else if wsum = Fin 0 then (Fin 1, [''Warning: wsum == 0 encountered''])
      else (wsum, []))"

text \<open>
  The end of \<^verbatim>\<open>fit\<close>, from the two solutions \<^verbatim>\<open>kvec\<close> and \<^verbatim>\<open>w\<close> (neither is empty here):
  the result and the lines printed.
\<close>

definition fit_finish ::
  "fl list \<Rightarrow> fl arr2 \<Rightarrow> fl list \<Rightarrow> fl list \<Rightarrow> nat \<Rightarrow> nat \<Rightarrow> int \<Rightarrow> exn + fit_result \<times> string list" where
  "fit_finish psf_norms psf kvec w Nk nkern bg_fit =
     (let (bg, last_w, last_k) =
            (if bg_fit = 0 then (last w, length w - 1, length kvec - 1)
             else (Fin 0, length w, length kvec));
          kmat = reshape_square nkern (take Nk kvec)
      in case np_mul psf_norms (take last_w w) of
           Inl e \<Rightarrow> Inl e
         | Inr prods \<Rightarrow>
             let (wsum, out) = clamp_wsum (fsum prods)
             in Inr (\<lparr>psf_image = psf, background = bg, kmat = kmat,
                       flux_scale = fmul (fsum (take last_k kvec)) wsum,
                       coeffs = map (\<lambda>x. fdiv x wsum) (take last_w w)\<rparr>, out))"

text \<open>
  The two least-squares solves of \<^verbatim>\<open>fit\<close>, each on its design matrix and on the
  observed vector \<^verbatim>\<open>fvec / nvec\<close>.
\<close>

definition fit_pass1 ::
  "'s solver \<Rightarrow> 's solver \<Rightarrow> psf list \<Rightarrow> nat \<times> nat \<Rightarrow> real arr2 \<Rightarrow> real arr2 \<Rightarrow> bool arr2
     \<Rightarrow> real \<Rightarrow> real \<Rightarrow> real list \<Rightarrow> real list \<Rightarrow> int \<Rightarrow> 's \<Rightarrow> (exn + fl list) \<times> 's" where
  "fit_pass1 lstsq nnls psf_list shp frame noise aperture xc yc xk yk bg_fit s =
     (let fvec = index_by aperture shp (\<lambda>p. Fin (frame p));
          nvec = index_by aperture shp noise
      in least_square lstsq nnls
           (fit_design1 (psf_list ! 0) shp aperture noise xc yc xk yk bg_fit)
           (over_noise fvec nvec) False s)"

definition fit_pass2 ::
  "'s solver \<Rightarrow> 's solver \<Rightarrow> psf list \<Rightarrow> fl list \<Rightarrow> nat \<times> nat \<Rightarrow> real arr2 \<Rightarrow> real arr2 \<Rightarrow> bool arr2
     \<Rightarrow> real \<Rightarrow> real \<Rightarrow> real list \<Rightarrow> real list \<Rightarrow> int \<Rightarrow> 's \<Rightarrow> (exn + fl list) \<times> 's" where
  "fit_pass2 lstsq nnls psf_list kvec shp frame noise aperture xc yc xk yk bg_fit s =
     (let fvec = index_by aperture shp (\<lambda>p. Fin (frame p));
          nvec = index_by aperture shp noise
      in least_square lstsq nnls
           (fit_design2 psf_list kvec shp aperture noise xc yc xk yk bg_fit)
           (over_noise fvec nvec) False s)"

text \<open>
  \<^verbatim>\<open>fit\<close>. \<^verbatim>\<open>psf_integral\<close> of \<^verbatim>\<open>spline_pca\<close> is not among the sources and is a parameter.
  The source takes the x coordinates from \<^verbatim>\<open>frame.shape[0]\<close> and uses them along the
  columns, so that a frame that is not square makes numpy raise on the mismatch of
  shapes (\<open>ShapeMismatch\<close>). A solution shorter than the loops index it raises
  \<^verbatim>\<open>IndexError\<close>.
\<close>

definition fit ::
  "'s solver \<Rightarrow> 's solver \<Rightarrow> (psf list \<Rightarrow> fl list) \<Rightarrow> psf list \<Rightarrow> nat \<times> nat \<Rightarrow> real arr2 \<Rightarrow> real arr2
     \<Rightarrow> bool arr2 \<Rightarrow> real \<Rightarrow> real \<Rightarrow> real \<Rightarrow> real \<Rightarrow> int \<Rightarrow> int \<Rightarrow> 's
     \<Rightarrow> (exn + fit_result \<times> string list) \<times> 's" where
  "fit lstsq nnls psf_integral psf_list shp frame noise msk xc yc radius krn_scl krn_rad bg_fit s =
     (if fst shp \<noteq> snd shp then (Inl ShapeMismatch, s)
      else
        let aperture = fit_aperture shp msk xc yc radius
        in case kernel_grid krn_scl krn_rad of
             Inl e \<Rightarrow> (Inl e, s)
           | Inr (xkern, xk, yk) \<Rightarrow>
               let psf_norms = psf_integral psf_list
               in if psf_list = [] then (Inl IndexError, s)
                  else
                    (case fit_pass1 lstsq nnls psf_list shp frame noise aperture xc yc xk yk bg_fit s of
                       (Inl e, s1) \<Rightarrow> (Inl e, s1)
                     | (Inr kvec, s1) \<Rightarrow>
                         if length kvec < length xk then (Inl IndexError, s1)
                         else
                           (case fit_pass2 lstsq nnls psf_list kvec shp frame noise aperture
                                   xc yc xk yk bg_fit s1 of
                              (Inl e, s2) \<Rightarrow> (Inl e, s2)
                            | (Inr w, s2) \<Rightarrow>
                                if length w < length psf_list then (Inl IndexError, s2)
                                else
                                  (fit_finish psf_norms
                                     (composite psf_list kvec w xc yc xk yk)
                                     kvec w (length xk) (length xkern) bg_fit, s2))))"

text \<open>
  Concrete data for the instances: a solver that returns ones, a frame of one pixel, one
  constant PSF of integral one.
\<close>

definition ones_solver :: "nat solver" where
  "ones_solver eq_mat res_vec k = (Inr (replicate (length eq_mat) (Fin 1)), Suc k)"

definition unit_integral :: "psf list \<Rightarrow> fl list" where
  "unit_integral psf_list = map (\<lambda>f. Fin 1) psf_list"

definition nan_integral :: "psf list \<Rightarrow> fl list" where
  "nan_integral psf_list = map (\<lambda>f. NaN) psf_list"

subsection \<open>The binary-source fitter\<close>

text \<open>
  The masks of \<^verbatim>\<open>fit_binary\<close>: the shared aperture \<^verbatim>\<open>(notsel0 * notsel1 == 0)\<close>, multiplied
  by the mask unless that is \<^verbatim>\<open>None\<close>, and the disk \<^verbatim>\<open>apt\<close> of a source.
\<close>

definition binary_aperture ::
  "nat \<times> nat \<Rightarrow> bool arr2 option \<Rightarrow> real \<Rightarrow> real \<Rightarrow> real \<Rightarrow> real \<Rightarrow> real \<Rightarrow> bool arr2" where
  "binary_aperture shp msk xc0 yc0 xc1 yc1 fitrad =
     (let (xmat0, ymat0) = coo_mat shp xc0 yc0;
          (xmat1, ymat1) = coo_mat shp xc1 yc1;
          notsel0 = (\<lambda>p. (xmat0 p)\<^sup>2 + (ymat0 p)\<^sup>2 > fitrad\<^sup>2);
          notsel1 = (\<lambda>p. (xmat1 p)\<^sup>2 + (ymat1 p)\<^sup>2 > fitrad\<^sup>2);
          aperture = (\<lambda>p. (notsel0 p \<and> notsel1 p) = False)
      in case msk of None \<Rightarrow> aperture | Some m \<Rightarrow> (\<lambda>p. aperture p \<and> m p))"

definition psf_disk :: "nat \<times> nat \<Rightarrow> real \<Rightarrow> real \<Rightarrow> real \<Rightarrow> bool arr2" where
  "psf_disk shp xc yc psfrad =
     (let (xmat, ymat) = coo_mat shp xc yc
      in (\<lambda>p. (xmat p)\<^sup>2 + (ymat p)\<^sup>2 < psfrad\<^sup>2))"

text \<open>
  The PSF images of a source that enter the design matrices and the result, each
  multiplied by the disk \<open>apt\<close> of the source (a boolean array, one inside and zero
  outside). \<open>off\<close> is the offset of the source's block in the solution vector.
  \<^item> first pass: \<^verbatim>\<open>psf_list[0](...) * apt\<close>;
  \<^item> second pass: the sum over the offsets \<open>n\<close> of \<^verbatim>\<open>kvec[n] * psf_list[m](...) * apt\<close>;
  \<^item> third pass: the sum over the PSFs \<open>m\<close> of \<^verbatim>\<open>w[m] * psf_list[m](...) * apt\<close>;
  \<^item> result: the sum over \<open>m\<close> and \<open>n\<close> of \<^verbatim>\<open>kvec[n] * w[m] * psf_list[m](...) * apt\<close>.
\<close>

definition masked1 :: "psf \<Rightarrow> bool arr2 \<Rightarrow> real \<Rightarrow> real \<Rightarrow> real \<Rightarrow> real \<Rightarrow> fl arr2" where
  "masked1 psf_fun apt xc yc xkn ykn = (\<lambda>p. Fin (psf_on_frame psf_fun xc yc xkn ykn p * of_bool (apt p)))"

definition masked2 ::
  "psf \<Rightarrow> bool arr2 \<Rightarrow> fl list \<Rightarrow> nat \<Rightarrow> real \<Rightarrow> real \<Rightarrow> real list \<Rightarrow> real list \<Rightarrow> fl arr2" where
  "masked2 psf_m apt kvec off xc yc xk yk =
     (\<lambda>p. foldl (\<lambda>acc n.
                    fadd acc (fmul (fmul (kvec ! (n + off))
                                      (Fin (psf_on_frame psf_m xc yc (xk ! n) (yk ! n) p)))
                                (Fin (of_bool (apt p)))))
            (Fin 0) [0..<length xk])"

definition masked3 ::
  "psf list \<Rightarrow> nat \<Rightarrow> bool arr2 \<Rightarrow> fl list \<Rightarrow> nat \<Rightarrow> real \<Rightarrow> real \<Rightarrow> real \<Rightarrow> real \<Rightarrow> fl arr2" where
  "masked3 psf_list Npsf apt w off xc yc xkn ykn =
     (\<lambda>p. foldl (\<lambda>acc m.
                    fadd acc (fmul (fmul (w ! (m + off))
                                      (Fin (psf_on_frame (psf_list ! m) xc yc xkn ykn p)))
                                (Fin (of_bool (apt p)))))
            (Fin 0) [0..<Npsf])"

definition masked_composite ::
  "psf list \<Rightarrow> nat \<Rightarrow> bool arr2 \<Rightarrow> fl list \<Rightarrow> nat \<Rightarrow> fl list \<Rightarrow> nat \<Rightarrow> real \<Rightarrow> real \<Rightarrow> real list
     \<Rightarrow> real list \<Rightarrow> fl arr2" where
  "masked_composite psf_list Npsf apt kvec koff w woff xc yc xk yk =
     (\<lambda>p. foldl (\<lambda>acc (m, n).
                    fadd acc (fmul (fmul (fmul (kvec ! (n + koff)) (w ! (m + woff)))
                                      (Fin (psf_on_frame (psf_list ! m) xc yc (xk ! n) (yk ! n) p)))
                                (Fin (of_bool (apt p)))))
            (Fin 0) (List.product [0..<Npsf] [0..<length xk]))"

text \<open>
  The design matrices of the three passes: zeros, the background column, then for every
  index of the loop one column per source.
\<close>

definition binary_design ::
  "nat \<Rightarrow> nat \<times> nat \<Rightarrow> bool arr2 \<Rightarrow> real arr2 \<Rightarrow> (nat \<Rightarrow> fl arr2) \<Rightarrow> (nat \<Rightarrow> fl arr2) \<Rightarrow> mat" where
  "binary_design N shp aperture noise psf0 psf1 =
     (let nvec = index_by aperture shp noise;
          Npix = length nvec;
          psfs = set_col (np_zeros Npix (2 * N + 1)) (2 * N) (map (\<lambda>nv. fdiv (Fin 1) (Fin nv)) nvec)
      in fold (\<lambda>n psfs.
                 set_col
                   (set_col psfs n (over_noise (index_by aperture shp (psf0 n)) nvec))
                   (n + N) (over_noise (index_by aperture shp (psf1 n)) nvec))
           [0..<N] psfs)"

record binary_result =
  psf_image0 :: "fl arr2"
  psf_image1 :: "fl arr2"
  background2 :: fl
  kmat0 :: "fl list list"
  kmat1 :: "fl list list"
  flux_scale0 :: fl
  flux_scale1 :: fl
  coeffs0 :: "fl list"
  coeffs1 :: "fl list"

text \<open>
  The end of \<^verbatim>\<open>fit_binary\<close>, from the last two solutions (\<^verbatim>\<open>kvec\<close> is not empty here). The
  sums \<^verbatim>\<open>wsum0\<close> and \<^verbatim>\<open>wsum1\<close> are divided by as they are.
\<close>

definition binary_finish ::
  "fl list \<Rightarrow> fl list \<Rightarrow> fl arr2 \<Rightarrow> fl arr2 \<Rightarrow> fl list \<Rightarrow> fl list \<Rightarrow> nat \<Rightarrow> nat \<Rightarrow> nat
     \<Rightarrow> exn + binary_result" where
  "binary_finish psf_norms0 psf_norms1 psf0 psf1 kvec w Nk nkern Npsf =
     (let bg = last kvec;
          kmat0 = reshape_square nkern (take Nk kvec);
          kmat1 = reshape_square nkern (py_slice kvec (int Nk) (int (2 * Nk)))
      in case np_mul psf_norms0 (take Npsf w) of
           Inl e \<Rightarrow> Inl e
         | Inr prods0 \<Rightarrow>
             (case np_mul psf_norms1 (py_slice w (int Npsf) (- 1)) of
                Inl e \<Rightarrow> Inl e
              | Inr prods1 \<Rightarrow>
                  let wsum0 = fsum prods0;
                      wsum1 = fsum prods1
                  in Inr \<lparr>psf_image0 = psf0, psf_image1 = psf1, background2 = bg,
                          kmat0 = kmat0, kmat1 = kmat1,
                          flux_scale0 = fmul (fsum (take Nk kvec)) wsum0,
                          flux_scale1 = fmul (fsum (py_slice kvec (int Nk) (int (2 * Nk)))) wsum1,
                          coeffs0 = map (\<lambda>x. fdiv x wsum0) (take Npsf w),
                          coeffs1 = map (\<lambda>x. fdiv x wsum1) (py_slice w (int Npsf) (- 1))\<rparr>))"

text \<open>
  \<^verbatim>\<open>fit_binary\<close>, with the conventions of \<^verbatim>\<open>fit\<close>. The loops index \<^verbatim>\<open>psf_list1\<close> up to the
  length of \<^verbatim>\<open>psf_list0\<close>, \<^verbatim>\<open>kvec\<close> up to twice the number of offsets and \<open>w\<close> up to twice
  the number of PSFs.
\<close>

definition fit_binary ::
  "'s solver \<Rightarrow> 's solver \<Rightarrow> (psf list \<Rightarrow> fl list) \<Rightarrow> psf list \<Rightarrow> psf list \<Rightarrow> nat \<times> nat \<Rightarrow> real arr2
     \<Rightarrow> real arr2 \<Rightarrow> bool arr2 option \<Rightarrow> real \<Rightarrow> real \<Rightarrow> real \<Rightarrow> real \<Rightarrow> real \<Rightarrow> real \<Rightarrow> real \<Rightarrow> int
     \<Rightarrow> 's \<Rightarrow> (exn + binary_result) \<times> 's" where
  "fit_binary lstsq nnls psf_integral psf_list0 psf_list1 shp frame noise msk xc0 yc0 xc1 yc1
     psfrad fitrad krn_scl krn_rad s =
     (if fst shp \<noteq> snd shp then (Inl ShapeMismatch, s)
      else
        let apt0 = psf_disk shp xc0 yc0 psfrad;
            apt1 = psf_disk shp xc1 yc1 psfrad;
            aperture = binary_aperture shp msk xc0 yc0 xc1 yc1 fitrad;
            fvec = index_by aperture shp (\<lambda>p. Fin (frame p));
            nvec = index_by aperture shp noise
        in case kernel_grid krn_scl krn_rad of
             Inl e \<Rightarrow> (Inl e, s)
           | Inr (xkern, xk, yk) \<Rightarrow>
               let Nk = length xk;
                   Npsf = length psf_list0
               in if psf_list0 = [] \<or> psf_list1 = [] then (Inl IndexError, s)
                  else
                    (case least_square lstsq nnls
                            (binary_design Nk shp aperture noise
                               (\<lambda>n. masked1 (psf_list0 ! 0) apt0 xc0 yc0 (xk ! n) (yk ! n))
                               (\<lambda>n. masked1 (psf_list1 ! 0) apt1 xc1 yc1 (xk ! n) (yk ! n)))
                            (over_noise fvec nvec) False s of
                       (Inl e, s1) \<Rightarrow> (Inl e, s1)
                     | (Inr kvec, s1) \<Rightarrow>
                         if length kvec < 2 * Nk \<or> length psf_list1 < Npsf then (Inl IndexError, s1)
                         else
                           (case least_square lstsq nnls
                                   (binary_design Npsf shp aperture noise
                                      (\<lambda>m. masked2 (psf_list0 ! m) apt0 kvec 0 xc0 yc0 xk yk)
                                      (\<lambda>m. masked2 (psf_list1 ! m) apt1 kvec Nk xc1 yc1 xk yk))
                                   (over_noise fvec nvec) False s1 of
                              (Inl e, s2) \<Rightarrow> (Inl e, s2)
                            | (Inr w, s2) \<Rightarrow>
                                if length w < 2 * Npsf then (Inl IndexError, s2)
                                else
                                  (case least_square lstsq nnls
                                          (binary_design Nk shp aperture noise
                                             (\<lambda>n. masked3 psf_list0 Npsf apt0 w 0 xc0 yc0 (xk ! n) (yk ! n))
                                             (\<lambda>n. masked3 psf_list1 Npsf apt1 w Npsf xc1 yc1 (xk ! n) (yk ! n)))
                                          (over_noise fvec nvec) False s2 of
                                     (Inl e, s3) \<Rightarrow> (Inl e, s3)
                                   | (Inr kvec, s3) \<Rightarrow>
                                       if length kvec < 2 * Nk then (Inl IndexError, s3)
                                       else
                                         (binary_finish (psf_integral psf_list0) (psf_integral psf_list1)
                                            (masked_composite psf_list0 Npsf apt0 kvec 0 w 0 xc0 yc0 xk yk)
                                            (masked_composite psf_list1 Npsf apt1 kvec Nk w Npsf xc1 yc1 xk yk)
                                            kvec w Nk (length xkern) Npsf, s3)))))"


section \<open>Properties of the renderer\<close>

lemma deg2rad_minus: "deg2rad (- t) = - deg2rad t"
  by (simp add: deg2rad_def)

text \<open>
  C7: de-rotating a rotated position by the same angle gives the position back (over the
  reals); the forward rotation is \<open>(x cos \<theta> + y sin \<theta>, - x sin \<theta> + y cos \<theta>)\<close> with
  \<open>\<theta>\<close> the roll angle in radians, and the inverse is the same transform at \<open>- \<theta>\<close>.
\<close>

theorem rotate_derotate_roundtrip:
  "derotate_position (fst (rotate_position x y t)) (snd (rotate_position x y t)) t = (x, y)
   \<and> rotate_position x y t =
       (x * cos (deg2rad t) + y * sin (deg2rad t), - x * sin (deg2rad t) + y * cos (deg2rad t))
   \<and> derotate_position a b t = rotate_position a b (- t)"
proof -
  define c where "c = cos (deg2rad t)"
  define s where "s = sin (deg2rad t)"
  have cs: "c * c + s * s = 1"
    unfolding c_def s_def using sin_cos_squared_add3 [of "deg2rad t"] by (simp add: add.commute)
  have 1: "(x * c + y * s) * c + (- x * s + y * c) * (- s) = x * (c * c + s * s)"
    by (simp add: algebra_simps)
  have 2: "- (x * c + y * s) * (- s) + (- x * s + y * c) * c = y * (c * c + s * s)"
    by (simp add: algebra_simps)
  have "rotate_position (x * c + y * s) (- x * s + y * c) (- t) = (x, y)"
    unfolding rotate_position_def Let_def deg2rad_minus cos_minus sin_minus
    using 1 2 cs by (simp only: c_def [symmetric] s_def [symmetric] mult_1_right)
  then show ?thesis
    by (simp add: derotate_position_def rotate_position_def Let_def c_def s_def)
qed

lemma has_shape_zeros: "has_shape shp (zeros shp)"
  by (simp add: has_shape_def zeros_def list_all_iff)

lemma has_shape_add_block: "has_shape shp im \<Longrightarrow> has_shape shp (add_block im j0 i0 m)"
  by (auto simp: has_shape_def add_block_def list_all_iff)

lemma add_block_nth:
  "r < length im \<Longrightarrow> c < length (im ! r) \<Longrightarrow>
     add_block im j0 i0 m ! r ! c =
       im ! r ! c +
       (if j0 \<le> r \<and> r < j0 + length m \<and> i0 \<le> c \<and> c < i0 + length (m ! (r - j0))
        then m ! (r - j0) ! (c - i0) else 0)"
  by (simp add: add_block_def)

lemma add_block_empty:
  assumes "m = [] \<or> list_all (\<lambda>row. row = []) m"
  shows "add_block im j0 i0 m = im"
proof -
  have no: "\<not> (j0 \<le> r \<and> r < j0 + length m \<and> i0 \<le> c \<and> c < i0 + length (m ! (r - j0)))" for r c
    using assms by (auto simp: list_all_length)
  have "add_block im j0 i0 m = map (\<lambda>r. map (\<lambda>c. im ! r ! c) [0..<length (im ! r)]) [0..<length im]"
    unfolding add_block_def by (simp only: no if_False)
  also have "\<dots> = map (\<lambda>r. im ! r) [0..<length im]"
    by (simp only: map_nth)
  also have "\<dots> = im"
    by (simp only: map_nth)
  finally show ?thesis .
qed

lemma py_index_map:
  "py_index (map g xs) n = (case py_index xs n of Inl e \<Rightarrow> Inl e | Inr x \<Rightarrow> Inr (g x))"
  by (auto simp: py_index_def Let_def)

lemma py_slice_clipped:
  "0 \<le> a \<Longrightarrow> 0 \<le> b \<Longrightarrow> b \<le> int (length xs) \<Longrightarrow> py_slice xs a b = take (nat (b - a)) (drop (nat a) xs)"
  by (auto simp: py_slice_def Let_def min_def max_def)


lemma py_slice_upt:
  assumes "0 \<le> a" "0 \<le> b" "b \<le> int W"
  shows "py_slice (map g [0..<W]) a b = map g [nat a..<nat b]"
proof -
  have "py_slice (map g [0..<W]) a b = take (nat (b - a)) (drop (nat a) (map g [0..<W]))"
    using assms by (simp add: py_slice_clipped)
  also have "\<dots> = map g (take (nat (b - a)) (drop (nat a) [0..<W]))"
    by (simp add: take_map drop_map)
  also have "take (nat (b - a)) (drop (nat a) [0..<W]) = [nat a..<nat b]"
  proof (cases "a \<le> b")
    case True
    then have "nat a + nat (b - a) = nat b" using assms by linarith
    moreover have "nat b \<le> W" using assms by linarith
    ultimately show ?thesis
      by (simp add: drop_upt take_upt)
  next
    case False
    then show ?thesis using assms by simp
  qed
  finally show ?thesis .
qed

lemma draw_star_valid:
  assumes "py_index (stars self) n = Inr s"
  shows "draw_star self x0 y0 rolldeg psf_fun shp limflux max_psf_rad n im =
     Inr (if star_skipped x0 y0 rolldeg shp limflux max_psf_rad s then im
          else add_block im
                 (nat (max (snd (stamp_centre x0 y0 rolldeg s) - psf_rad_tier (fscale s) max_psf_rad) 0))
                 (nat (max (fst (stamp_centre x0 y0 rolldeg s) - psf_rad_tier (fscale s) max_psf_rad) 0))
                 (star_block x0 y0 rolldeg psf_fun shp max_psf_rad s))"
proof (cases "star_skipped x0 y0 rolldeg shp limflux max_psf_rad s")
  case True
  then show ?thesis
    unfolding draw_star_def rotate_cat_def
    by (auto simp: py_index_map assms Let_def star_skipped_def stamp_centre_def)
next
  case False
  define rad where "rad = psf_rad_tier (fscale s) max_psf_rad"
  define i where "i = fst (stamp_centre x0 y0 rolldeg s)"
  define j where "j = snd (stamp_centre x0 y0 rolldeg s)"
  have b: "i - rad < int (snd shp)" "0 < i + rad" "j - rad < int (fst shp)" "0 < j + rad"
    "\<not> fscale s < limflux"
    using False by (auto simp: star_skipped_def Let_def rad_def i_def j_def)
  have sx: "py_slice (map (\<lambda>c. real c - x0) [0..<snd shp]) (max (i - rad) 0) (min (i + rad) (int (snd shp)))
      = map (\<lambda>c. real c - x0) [nat (max (i - rad) 0)..<nat (min (i + rad) (int (snd shp)))]"
    using b by (intro py_slice_upt) auto
  have sy: "py_slice (map (\<lambda>r. real r - y0) [0..<fst shp]) (max (j - rad) 0) (min (j + rad) (int (fst shp)))
      = map (\<lambda>r. real r - y0) [nat (max (j - rad) 0)..<nat (min (j + rad) (int (fst shp)))]"
    using b by (intro py_slice_upt) auto
  have ij: "py_int (x0 + fst (rotate_position (xpos s) (ypos s) rolldeg)) = i"
    "py_int (y0 + snd (rotate_position (xpos s) (ypos s) rolldeg)) = j"
    by (simp_all add: i_def j_def stamp_centre_def)
  show ?thesis
    unfolding draw_star_def rotate_cat_def
    using b False
    by (simp add: py_index_map assms Let_def ij rad_def [symmetric] sx sy stamp_def star_block_def
        i_def [symmetric] j_def [symmetric] comp_def)
qed


lemma nth_map_upt_shift: "a \<le> r \<Longrightarrow> r < b \<Longrightarrow> map f [a..<b] ! (r - a) = f r"
  by simp

lemma star_block_rows:
  "length (star_block x0 y0 rolldeg psf_fun shp max_psf_rad s) =
     nat (min (snd (stamp_centre x0 y0 rolldeg s) + psf_rad_tier (fscale s) max_psf_rad) (int (fst shp)))
     - nat (max (snd (stamp_centre x0 y0 rolldeg s) - psf_rad_tier (fscale s) max_psf_rad) 0)"
  by (simp add: star_block_def Let_def)

lemma star_block_cols:
  "k < length (star_block x0 y0 rolldeg psf_fun shp max_psf_rad s) \<Longrightarrow>
   length (star_block x0 y0 rolldeg psf_fun shp max_psf_rad s ! k) =
     nat (min (fst (stamp_centre x0 y0 rolldeg s) + psf_rad_tier (fscale s) max_psf_rad) (int (snd shp)))
     - nat (max (fst (stamp_centre x0 y0 rolldeg s) - psf_rad_tier (fscale s) max_psf_rad) 0)"
  by (simp add: star_block_def Let_def)

lemma draw_star_outside:
  assumes v: "py_index (stars self) n = Inr s"
    and out: "stamp_pixels x0 y0 rolldeg max_psf_rad s \<inter> image_pixels shp = {}"
  shows "draw_star self x0 y0 rolldeg psf_fun shp limflux max_psf_rad n im = Inr im"
proof (cases "star_skipped x0 y0 rolldeg shp limflux max_psf_rad s")
  case True
  then show ?thesis by (simp add: draw_star_valid [OF v])
next
  case False
  define rad where "rad = psf_rad_tier (fscale s) max_psf_rad"
  define i where "i = fst (stamp_centre x0 y0 rolldeg s)"
  define j where "j = snd (stamp_centre x0 y0 rolldeg s)"
  define B where "B = star_block x0 y0 rolldeg psf_fun shp max_psf_rad s"
  have b: "i - rad < int (snd shp)" "0 < i + rad" "j - rad < int (fst shp)" "0 < j + rad"
    using False by (auto simp: star_skipped_def Let_def rad_def i_def j_def)
  have lB: "length B = nat (min (j + rad) (int (fst shp))) - nat (max (j - rad) 0)"
    by (simp only: B_def star_block_rows rad_def i_def j_def)
  have lBc: "length (B ! k) = nat (min (i + rad) (int (snd shp))) - nat (max (i - rad) 0)"
    if "k < length B" for k
    using star_block_cols [of k x0 y0 rolldeg psf_fun shp max_psf_rad s] that
    by (simp only: B_def rad_def i_def j_def)
  have "(max (j - rad) 0, max (i - rad) 0) \<notin> stamp_pixels x0 y0 rolldeg max_psf_rad s \<inter> image_pixels shp"
    using out by simp
  then have "\<not> (max (j - rad) 0 < min (j + rad) (int (fst shp))
               \<and> max (i - rad) 0 < min (i + rad) (int (snd shp)))"
    using b by (auto simp: stamp_pixels_def image_pixels_def rad_def i_def j_def)
  then consider "min (j + rad) (int (fst shp)) \<le> max (j - rad) 0"
    | "min (i + rad) (int (snd shp)) \<le> max (i - rad) 0"
    by linarith
  then have "B = [] \<or> list_all (\<lambda>row. row = []) B"
  proof cases
    case 1
    then have "length B = 0"
      unfolding lB by linarith
    then show ?thesis by simp
  next
    case 2
    have "length (B ! k) = 0" if "k < length B" for k
      using lBc [OF that] 2 by linarith
    then show ?thesis by (simp add: list_all_length)
  qed
  then show ?thesis
    using False by (simp add: draw_star_valid [OF v] add_block_empty B_def)
qed

lemma draw_star_pixel:
  assumes v: "py_index (stars self) n = Inr s"
    and sh: "has_shape shp im" and r: "r < fst shp" and c: "c < snd shp"
    and d: "draw_star self x0 y0 rolldeg psf_fun shp limflux max_psf_rad n im = Inr im'"
  shows "im' ! r ! c = im ! r ! c + star_contrib x0 y0 rolldeg psf_fun limflux max_psf_rad s r c"
proof (cases "star_skipped x0 y0 rolldeg shp limflux max_psf_rad s")
  case True
  then have "im' = im" using d by (simp add: draw_star_valid [OF v])
  moreover have "star_contrib x0 y0 rolldeg psf_fun limflux max_psf_rad s r c = 0"
    using True r c
    by (auto simp: star_contrib_def star_skipped_def stamp_pixels_def Let_def)
  ultimately show ?thesis by simp
next
  case False
  define rad where "rad = psf_rad_tier (fscale s) max_psf_rad"
  define i where "i = fst (stamp_centre x0 y0 rolldeg s)"
  define j where "j = snd (stamp_centre x0 y0 rolldeg s)"
  define B where "B = star_block x0 y0 rolldeg psf_fun shp max_psf_rad s"
  define j0 where "j0 = nat (max (j - rad) 0)"
  define i0 where "i0 = nat (max (i - rad) 0)"
  define j1 where "j1 = nat (min (j + rad) (int (fst shp)))"
  define i1 where "i1 = nat (min (i + rad) (int (snd shp)))"
  have b: "i - rad < int (snd shp)" "0 < i + rad" "j - rad < int (fst shp)" "0 < j + rad"
    "\<not> fscale s < limflux"
    using False by (auto simp: star_skipped_def Let_def rad_def i_def j_def)
  have im': "im' = add_block im j0 i0 B"
    using d False by (simp add: draw_star_valid [OF v] B_def j0_def i0_def rad_def i_def j_def)
  have len: "r < length im" "c < length (im ! r)"
    using sh r c by (auto simp: has_shape_def list_all_length)
  have lB: "length B = j1 - j0"
    by (simp add: B_def star_block_rows j1_def j0_def rad_def i_def j_def)
  have lBc: "length (B ! k) = i1 - i0" if "k < length B" for k
    using that star_block_cols [of k x0 y0 rolldeg psf_fun shp max_psf_rad s]
    by (simp add: B_def i1_def i0_def rad_def i_def j_def)
  have B_def': "B = map (\<lambda>r. map (\<lambda>c. fscale s *
                (if (real c - x0 - fst (rotate_position (xpos s) (ypos s) rolldeg))\<^sup>2
                    + (real r - y0 - snd (rotate_position (xpos s) (ypos s) rolldeg))\<^sup>2
                    > (real_of_int rad)\<^sup>2 then 0
                 else psf_fun (real r - y0 - snd (rotate_position (xpos s) (ypos s) rolldeg))
                        (real c - x0 - fst (rotate_position (xpos s) (ypos s) rolldeg))))
              [i0..<i1]) [j0..<j1]"
    by (simp add: B_def star_block_def Let_def i0_def i1_def j0_def j1_def rad_def i_def j_def)
  have inset: "(int r, int c) \<in> stamp_pixels x0 y0 rolldeg max_psf_rad s
      \<longleftrightarrow> (j0 \<le> r \<and> r < j1 \<and> i0 \<le> c \<and> c < i1)"
    using r c b
    by (auto simp: stamp_pixels_def rad_def [symmetric] i_def [symmetric] j_def [symmetric]
        j0_def j1_def i0_def i1_def)
  show ?thesis
  proof (cases "j0 \<le> r \<and> r < j1 \<and> i0 \<le> c \<and> c < i1")
    case True
    then have "B ! (r - j0) ! (c - i0) = star_contrib x0 y0 rolldeg psf_fun limflux max_psf_rad s r c"
      using b inset
      by (simp add: B_def' star_contrib_def Let_def rad_def nth_map_upt_shift del: nth_map nth_upt)
    moreover have rb: "r - j0 < length B"
      using True unfolding lB by linarith
    have "length (B ! (r - j0)) = i1 - i0"
      using rb by (rule lBc)
    then have "r < j0 + length B \<and> c < i0 + length (B ! (r - j0))"
      using True lB by linarith
    ultimately show ?thesis
      using True by (simp add: im' add_block_nth [OF len])
  next
    case False
    then have "(int r, int c) \<notin> stamp_pixels x0 y0 rolldeg max_psf_rad s"
      using inset by blast
    then have "star_contrib x0 y0 rolldeg psf_fun limflux max_psf_rad s r c = 0"
      by (simp add: star_contrib_def Let_def)
    moreover have "\<not> (j0 \<le> r \<and> r < j0 + length B \<and> i0 \<le> c \<and> c < i0 + length (B ! (r - j0)))"
    proof
      assume a: "j0 \<le> r \<and> r < j0 + length B \<and> i0 \<le> c \<and> c < i0 + length (B ! (r - j0))"
      then have "r - j0 < length B" by auto
      then have "length (B ! (r - j0)) = i1 - i0" by (rule lBc)
      with a False show False by (auto simp: lB)
    qed
    ultimately show ?thesis
      unfolding im' add_block_nth [OF len] by auto
  qed
qed


lemma draw_star_invalid:
  "py_index (stars self) n = Inl e \<Longrightarrow>
     draw_star self x0 y0 rolldeg psf_fun shp limflux max_psf_rad n im = Inl e"
  by (simp add: draw_star_def rotate_cat_def py_index_map)

lemma has_shape_draw_star:
  assumes "draw_star self x0 y0 rolldeg psf_fun shp limflux max_psf_rad n im = Inr im'"
    and "has_shape shp im"
  shows "has_shape shp im'"
proof (cases "py_index (stars self) n")
  case (Inl e)
  then show ?thesis using assms(1) by (simp add: draw_star_invalid)
next
  case (Inr s)
  show ?thesis
    using assms unfolding draw_star_valid [OF Inr]
    by (auto simp: has_shape_add_block split: if_splits)
qed

lemma has_shape_image_loop:
  "image_loop self x0 y0 rolldeg psf_fun shp limflux max_psf_rad ns im = Inr im' \<Longrightarrow>
     has_shape shp im \<Longrightarrow> has_shape shp im'"
proof (induction ns arbitrary: im)
  case Nil
  then show ?case by simp
next
  case (Cons n ns)
  then show ?case
    by (auto split: sum.splits dest: has_shape_draw_star)
qed

lemma image_loop_pixel:
  assumes "image_loop self x0 y0 rolldeg psf_fun shp limflux max_psf_rad ns im = Inr im'"
    and "has_shape shp im" and "r < fst shp" and "c < snd shp"
  shows "im' ! r ! c =
     im ! r ! c + (\<Sum>n\<leftarrow>ns. entry_contrib self x0 y0 rolldeg psf_fun limflux max_psf_rad r c n)"
  using assms
proof (induction ns arbitrary: im)
  case Nil
  then show ?case by simp
next
  case (Cons n ns)
  from Cons.prems(1) obtain im1 where
    d: "draw_star self x0 y0 rolldeg psf_fun shp limflux max_psf_rad n im = Inr im1"
    and l: "image_loop self x0 y0 rolldeg psf_fun shp limflux max_psf_rad ns im1 = Inr im'"
    by (auto split: sum.splits)
  from d obtain s where v: "py_index (stars self) n = Inr s"
    by (cases "py_index (stars self) n") (auto simp: draw_star_invalid)
  have p: "im1 ! r ! c = im ! r ! c + star_contrib x0 y0 rolldeg psf_fun limflux max_psf_rad s r c"
    using draw_star_pixel [OF v Cons.prems(2) Cons.prems(3) Cons.prems(4) d] .
  have sh1: "has_shape shp im1"
    using has_shape_draw_star [OF d Cons.prems(2)] .
  have "im' ! r ! c =
     im1 ! r ! c + (\<Sum>n\<leftarrow>ns. entry_contrib self x0 y0 rolldeg psf_fun limflux max_psf_rad r c n)"
    using Cons.IH [OF l sh1 Cons.prems(3) Cons.prems(4)] .
  then show ?case
    by (simp add: p entry_contrib_def v)
qed

text \<open>
  C8: a catalogue star whose stamp has no pixel in common with the image raises no error
  and leaves the image as it is; the image returned has the requested shape, and each of
  its pixels is the sum, over the stars of \<^verbatim>\<open>id_range\<close>, of what each star puts on that
  pixel (nothing outside its stamp, so stamps are clipped to the image and overlapping
  stamps add up).
\<close>

theorem image_stamps_skipped_or_summed:
  "(py_index (stars self) n = Inr s
      \<and> stamp_pixels x0 y0 rolldeg max_psf_rad s \<inter> image_pixels shp = {}
    \<longrightarrow> draw_star self x0 y0 rolldeg psf_fun shp limflux max_psf_rad n ret_img = Inr ret_img)
   \<and> (image_stars self x0 y0 rolldeg psf_fun (Some shp) target limflux single_id max_psf_rad = Inr im
      \<longrightarrow> has_shape shp im
          \<and> (r < fst shp \<and> c < snd shp \<longrightarrow>
               im ! r ! c =
                 (\<Sum>n\<leftarrow>id_range self target single_id.
                    entry_contrib self x0 y0 rolldeg psf_fun limflux max_psf_rad r c n)))"
proof (intro conjI impI)
  assume "py_index (stars self) n = Inr s
      \<and> stamp_pixels x0 y0 rolldeg max_psf_rad s \<inter> image_pixels shp = {}"
  then show "draw_star self x0 y0 rolldeg psf_fun shp limflux max_psf_rad n ret_img = Inr ret_img"
    using draw_star_outside by blast
next
  assume a: "image_stars self x0 y0 rolldeg psf_fun (Some shp) target limflux single_id max_psf_rad = Inr im"
  then have l: "image_loop self x0 y0 rolldeg psf_fun shp limflux max_psf_rad
       (id_range self target single_id) (zeros shp) = Inr im"
    by (simp add: image_stars_def)
  show "has_shape shp im"
    using has_shape_image_loop [OF l has_shape_zeros] .
  assume rc: "r < fst shp \<and> c < snd shp"
  then have "zeros shp ! r ! c = 0"
    by (simp add: zeros_def)
  then show "im ! r ! c =
     (\<Sum>n\<leftarrow>id_range self target single_id.
         entry_contrib self x0 y0 rolldeg psf_fun limflux max_psf_rad r c n)"
    using image_loop_pixel [OF l has_shape_zeros] rc by simp
qed

lemma rot0: "rotate_position x y 0 = (x, y)"
  by (simp add: rotate_position_def deg2rad_def)

lemma w1: "py_index (stars wcat) 2 = Inr \<lparr>xpos = 1000, ypos = 0, fscale = 1 / 2, Teff = 0\<rparr>"
  by (simp add: py_index_def wcat_def)

lemma w2: "stamp_pixels 0 0 0 1 \<lparr>xpos = 1000, ypos = 0, fscale = 1 / 2, Teff = 0\<rparr> \<inter> image_pixels (1, 1) = {}"
  by (auto simp: stamp_pixels_def image_pixels_def stamp_centre_def rot0 py_int_def psf_rad_tier_def)

lemma w3: "image_stars wcat 0 0 0 (\<lambda>y x. 1) (Some (1, 1)) 0 0 None 1 = Inr [[3 / 2]]"
  by (simp add: image_stars_def id_range_def py_range_def catsize_def wcat_def zeros_def
      draw_star_def rotate_cat_def rot0 py_index_def py_int_def psf_rad_tier_def Let_def
      py_slice_def stamp_def add_block_def upto.simps)


theorem image_stamps_skipped_or_summed_witness:
  "draw_star wcat 0 0 0 (\<lambda>y x. 1) (1, 1) 0 1 2 [[0]] = Inr [[0]]
   \<and> has_shape (1, 1) [[3 / 2]]
   \<and> (\<Sum>n\<leftarrow>id_range wcat 0 None. entry_contrib wcat 0 0 0 (\<lambda>y x. 1) 0 1 0 0 n) = 3 / 2"
  using image_stamps_skipped_or_summed [where self = wcat and n = 2
      and s = "\<lparr>xpos = 1000, ypos = 0, fscale = 1 / 2, Teff = 0\<rparr>"
      and ?x0.0 = 0 and ?y0.0 = 0 and rolldeg = 0 and max_psf_rad = 1 and shp = "(1, 1)"
      and psf_fun = "\<lambda>y x. 1" and limflux = 0 and ret_img = "[[0]]" and target = 0
      and single_id = None and im = "[[3 / 2]]" and r = 0 and c = 0] w1 w2 w3
  by simp

lemma has_shape_image_stars:
  "image_stars self x0 y0 rolldeg psf_fun (Some shp) target limflux single_id max_psf_rad = Inr im
     \<Longrightarrow> has_shape shp im"
  unfolding image_stars_def Let_def
  using has_shape_image_loop [OF _ has_shape_zeros] by simp

lemma map2_zero_row: "map2 (+) (replicate (length row) (0::real)) row = row"
  by (induction row) auto

lemma add_scaled_zeros: "has_shape shp im \<Longrightarrow> add_scaled (zeros shp) im 1 = im"
proof -
  assume h: "has_shape shp im"
  have "list_all (\<lambda>row. length row = w) im \<Longrightarrow> length im = k \<Longrightarrow>
     map2 (map2 (\<lambda>a b. a + b / 1)) (replicate k (replicate w (0::real))) im = im" for k w
    by (induction im arbitrary: k) (auto simp: map2_zero_row)
  then show ?thesis using h by (simp add: add_scaled_def zeros_def has_shape_def)
qed

lemma rotblur_N_zero: "rotblur_N shp 0 oversample = 1"
  by (simp add: rotblur_N_def py_int_def Let_def)

lemma rotblur_rolldegs_zero: "rotblur_rolldegs rolldeg 0 1 = [rolldeg]"
  by (simp add: rotblur_rolldegs_def linspace_def)

text \<open>
  C10: with \<^verbatim>\<open>blurdeg = 0\<close>, \<^verbatim>\<open>rotblur\<close> averages one render (\<open>N = 1\<close>) at the requested
  roll angle and returns what \<^verbatim>\<open>image\<close> returns for the same arguments (the same image or
  the same error).
\<close>

theorem rotblur_zero_blur:
  "rotblur_N (case shp of None \<Rightarrow> shape self | Some s \<Rightarrow> s) 0 oversample = 1
   \<and> rotblur_rolldegs rolldeg 0 1 = [rolldeg]
   \<and> rotblur self x0 y0 rolldeg 0 psf_fun oversample shp target limflux single_id max_psf_rad =
       image_stars self x0 y0 rolldeg psf_fun shp target limflux single_id max_psf_rad"
proof -
  define s where "s = (case shp of None \<Rightarrow> shape self | Some s \<Rightarrow> s)"
  have same: "image_stars self x0 y0 rolldeg psf_fun shp target limflux single_id max_psf_rad =
      image_stars self x0 y0 rolldeg psf_fun (Some s) target limflux single_id max_psf_rad"
    by (simp add: image_stars_def s_def)
  have "rotblur self x0 y0 rolldeg 0 psf_fun oversample shp target limflux single_id max_psf_rad =
      rotblur_loop self x0 y0 psf_fun s target limflux single_id max_psf_rad 1 [rolldeg] (zeros s)"
    by (simp add: rotblur_def Let_def rotblur_N_zero rotblur_rolldegs_zero s_def)
  also have "\<dots> = image_stars self x0 y0 rolldeg psf_fun (Some s) target limflux single_id max_psf_rad"
    by (auto split: sum.splits dest: has_shape_image_stars simp: add_scaled_zeros)
  finally show ?thesis
    using same by (simp add: rotblur_N_zero rotblur_rolldegs_zero)
qed

text \<open>
  C9: the PSF evaluation radius is \<open>min(70, max_psf_rad)\<close> for a flux ratio above 0.1,
  \<open>min(50, max_psf_rad)\<close> for a flux ratio in \<open>(0.001, 0.1]\<close> and \<open>min(30, max_psf_rad)\<close>
  for a flux ratio of at most 0.001, in particular for the flux ratios 0.5 and 0.0001; a
  star with a flux ratio below \<^verbatim>\<open>limflux\<close> is not drawn.
\<close>

theorem psf_rad_tiers:
  "(f > 1 / 10 \<longrightarrow> psf_rad_tier f max_psf_rad = min 70 max_psf_rad)
   \<and> (1 / 1000 < f \<and> f \<le> 1 / 10 \<longrightarrow> psf_rad_tier f max_psf_rad = min 50 max_psf_rad)
   \<and> (f \<le> 1 / 1000 \<longrightarrow> psf_rad_tier f max_psf_rad = min 30 max_psf_rad)
   \<and> psf_rad_tier (1 / 2) max_psf_rad = min 70 max_psf_rad
   \<and> psf_rad_tier (1 / 10000) max_psf_rad = min 30 max_psf_rad
   \<and> (py_index (map fscale (stars self)) n = Inr f \<and> f < limflux \<longrightarrow>
        draw_star self x0 y0 rolldeg psf_fun shp limflux max_psf_rad n ret_img = Inr ret_img)"
  by (simp add: psf_rad_tier_def draw_star_def Let_def split: prod.splits)

theorem psf_rad_tiers_witness:
  "psf_rad_tier (3 / 10) 100 = 70 \<and> psf_rad_tier (1 / 100) 100 = 50
   \<and> psf_rad_tier (1 / 2000) 20 = 20
   \<and> draw_star wcat 0 0 0 (\<lambda>y x. 1) (1, 1) (3 / 4) 70 1 [[0]] = Inr [[0]]"
  using psf_rad_tiers [where f = "3 / 10" and max_psf_rad = 100 and self = wcat and n = 1
      and limflux = 0]
    psf_rad_tiers [where f = "1 / 100" and max_psf_rad = 100 and self = wcat and n = 1
      and limflux = 0]
    psf_rad_tiers [where f = "1 / 2000" and max_psf_rad = 20 and self = wcat and n = 1
      and limflux = 0]
    psf_rad_tiers [where f = "1 / 2" and max_psf_rad = 70 and self = wcat and n = 1
      and limflux = "3 / 4" and ?x0.0 = 0 and ?y0.0 = 0 and rolldeg = 0 and psf_fun = "\<lambda>y x. 1"
      and shp = "(1, 1)" and ret_img = "[[0]]"]
  by (simp add: py_index_def wcat_def)

section \<open>Properties of the PSF library builder\<close>













section \<open>Properties of the fitters\<close>

text \<open>
  C3: a least-squares solve (not in non-negative mode) calls the linear solver once if
  that call succeeds, and otherwise exactly twice, both times with the arguments given;
  the result is that of the last call, so the error of the first call is dropped and the
  error of the second is returned.
\<close>

theorem least_square_retries_once:
  "(fst (lstsq eq_mat res_vec s) = Inr x \<longrightarrow>
      least_square (logged lstsq) nnls eq_mat res_vec False ([], s) =
        (Inr x, ([(eq_mat, res_vec)], snd (lstsq eq_mat res_vec s))))
   \<and> (fst (lstsq eq_mat res_vec s) = Inl e \<longrightarrow>
      least_square (logged lstsq) nnls eq_mat res_vec False ([], s) =
        (fst (lstsq eq_mat res_vec (snd (lstsq eq_mat res_vec s))),
         ([(eq_mat, res_vec), (eq_mat, res_vec)],
          snd (lstsq eq_mat res_vec (snd (lstsq eq_mat res_vec s))))))"
  by (auto simp: least_square_def logged_def split: prod.splits sum.splits)

theorem least_square_retries_once_witness:
  "least_square (logged flaky) (logged flaky) [[Fin 1]] [Fin 2] False ([], 1) =
     (Inr [Fin 0], ([([[Fin 1]], [Fin 2])], 2))
   \<and> least_square (logged flaky) (logged flaky) [[Fin 1]] [Fin 2] False ([], 0) =
     (Inr [Fin 0], ([([[Fin 1]], [Fin 2]), ([[Fin 1]], [Fin 2])], 2))
   \<and> least_square (logged broken) (logged flaky) [[Fin 1]] [Fin 2] False ([], 0) =
     (Inl LinAlgError, ([([[Fin 1]], [Fin 2]), ([[Fin 1]], [Fin 2])], 2))"
  using least_square_retries_once [where lstsq = flaky and eq_mat = "[[Fin 1]]"
      and res_vec = "[Fin 2]" and s = 1 and x = "[Fin 0]" and nnls = "logged flaky"]
    least_square_retries_once [where lstsq = flaky and eq_mat = "[[Fin 1]]"
      and res_vec = "[Fin 2]" and s = 0 and e = LinAlgError and nnls = "logged flaky"]
    least_square_retries_once [where lstsq = broken and eq_mat = "[[Fin 1]]"
      and res_vec = "[Fin 2]" and s = 0 and e = LinAlgError and nnls = "logged flaky"]
  by (simp add: flaky_def broken_def numeral_2_eq_2)

lemma fold_set_col:
  "k \<le> length M \<Longrightarrow> fold (\<lambda>n M. set_col M n (f n)) [0..<k] M = map f [0..<k] @ drop k M"
proof (induction k)
  case 0
  then show ?case by simp
next
  case (Suc k)
  then have k: "k < length M" by simp
  have "(map f [0..<k] @ drop k M)[k := f k] = map f [0..<k] @ (drop k M)[0 := f k]"
    by (simp add: list_update_append)
  also have "(drop k M)[0 := f k] = f k # drop (Suc k) M"
    using k by (simp add: Cons_nth_drop_Suc [symmetric])
  finally show ?case
    using Suc by (simp add: set_col_def)
qed

lemma design_fold:
  "fold (\<lambda>n M. set_col M n (f n)) [0..<k]
     (if b then set_col (np_zeros N (k + 1)) k c else np_zeros N k)
   = map f [0..<k] @ (if b then [c] else [])"
proof (cases b)
  case True
  define Z where "Z = np_zeros N (k + 1)"
  have lZ: "length Z = Suc k"
    by (simp add: Z_def np_zeros_def)
  have "Z[k := c] = take k Z @ c # drop (Suc k) Z"
    using lZ by (simp add: upd_conv_take_nth_drop)
  then have d: "drop k (Z[k := c]) = [c]"
    using lZ by simp
  have "fold (\<lambda>n M. set_col M n (f n)) [0..<k] (Z[k := c]) = map f [0..<k] @ drop k (Z[k := c])"
    using lZ by (intro fold_set_col) simp
  then show ?thesis
    using True d by (simp add: set_col_def Z_def)
next
  case False
  have "fold (\<lambda>n M. set_col M n (f n)) [0..<k] (np_zeros N k)
      = map f [0..<k] @ drop k (np_zeros N k)"
    by (intro fold_set_col) (simp add: np_zeros_def)
  then show ?thesis
    using False by (simp add: np_zeros_def)
qed

lemma fit_design1_cols:
  "fit_design1 psf0 shp aperture noise xc yc xk yk bg_fit =
     map (\<lambda>n. over_noise
                 (index_by aperture shp (\<lambda>p. Fin (psf_on_frame psf0 xc yc (xk ! n) (yk ! n) p)))
                 (index_by aperture shp noise)) [0..<length xk]
     @ (if bg_fit = 0 then [map (\<lambda>nv. fdiv (Fin 1) (Fin nv)) (index_by aperture shp noise)] else [])"
  unfolding fit_design1_def Let_def
  by (simp only: design_fold length_map)

lemma fit_design2_cols:
  "fit_design2 psf_list kvec shp aperture noise xc yc xk yk bg_fit =
     map (\<lambda>m. over_noise
                 (index_by aperture shp (blurred (psf_list ! m) kvec xc yc xk yk))
                 (index_by aperture shp noise)) [0..<length psf_list]
     @ (if bg_fit = 0 then [map (\<lambda>nv. fdiv (Fin 1) (Fin nv)) (index_by aperture shp noise)] else [])"
  unfolding fit_design2_def Let_def
  by (simp only: design_fold length_map)

lemma fit_returns:
  assumes "fit lstsq nnls psf_integral psf_list shp frame noise msk xc yc radius krn_scl krn_rad bg_fit s
             = (Inr ro, s')"
  shows "\<exists>xkern xk yk kvec s1 w.
           kernel_grid krn_scl krn_rad = Inr (xkern, xk, yk)
         \<and> fit_pass1 lstsq nnls psf_list shp frame noise (fit_aperture shp msk xc yc radius)
              xc yc xk yk bg_fit s = (Inr kvec, s1)
         \<and> fit_pass2 lstsq nnls psf_list kvec shp frame noise (fit_aperture shp msk xc yc radius)
              xc yc xk yk bg_fit s1 = (Inr w, s')
         \<and> length psf_list \<le> length w \<and> psf_list \<noteq> [] \<and> length xk \<le> length kvec
         \<and> fit_finish (psf_integral psf_list) (composite psf_list kvec w xc yc xk yk) kvec w
              (length xk) (length xkern) bg_fit = Inr ro"
  using assms unfolding fit_def Let_def
  by (auto split: if_splits sum.splits prod.splits)

lemma fit_reaches_finish:
  assumes "fst shp = snd shp" and "kernel_grid krn_scl krn_rad = Inr (xkern, xk, yk)"
    and "psf_list \<noteq> []"
    and "fit_pass1 lstsq nnls psf_list shp frame noise (fit_aperture shp msk xc yc radius)
           xc yc xk yk bg_fit s = (Inr kvec, s1)"
    and "length xk \<le> length kvec"
    and "fit_pass2 lstsq nnls psf_list kvec shp frame noise (fit_aperture shp msk xc yc radius)
           xc yc xk yk bg_fit s1 = (Inr w, s2)"
    and "length psf_list \<le> length w"
  shows "fit lstsq nnls psf_integral psf_list shp frame noise msk xc yc radius krn_scl krn_rad bg_fit s
           = (fit_finish (psf_integral psf_list) (composite psf_list kvec w xc yc xk yk) kvec w
                (length xk) (length xkern) bg_fit, s2)"
  using assms unfolding fit_def Let_def by simp

lemma fdiv_one: "fdiv x (Fin 1) = x"
  by (cases x) simp_all

lemma clamp_wsum_cases:
  "clamp_wsum wsum =
     (if isnan wsum \<or> wsum = Fin 0 then Fin 1 else wsum,
      if isnan wsum then [''Warning: wsum == NaN encountered'']
      else if wsum = Fin 0 then [''Warning: wsum == 0 encountered''] else [])"
  by (simp add: clamp_wsum_def)

lemma fit_finish_Inr:
  assumes "fit_finish psf_norms psf kvec w Nk nkern bg_fit = Inr (res, out)"
  shows "\<exists>prods. np_mul psf_norms (take (if bg_fit = 0 then length w - 1 else length w) w) = Inr prods
      \<and> background res = (if bg_fit = 0 then last w else Fin 0)
      \<and> coeffs res = map (\<lambda>x. fdiv x (fst (clamp_wsum (fsum prods))))
                        (take (if bg_fit = 0 then length w - 1 else length w) w)
      \<and> flux_scale res = fmul (fsum (take (if bg_fit = 0 then length kvec - 1 else length kvec) kvec))
                            (fst (clamp_wsum (fsum prods)))
      \<and> out = snd (clamp_wsum (fsum prods))"
  using assms unfolding fit_finish_def Let_def
  by (auto split: sum.splits prod.splits if_splits)

lemma fit_finish_total:
  assumes "np_mul psf_norms (take (if bg_fit = 0 then length w - 1 else length w) w) = Inr prods"
  shows "\<exists>res. fit_finish psf_norms psf kvec w Nk nkern bg_fit = Inr (res, snd (clamp_wsum (fsum prods)))
      \<and> coeffs res = map (\<lambda>x. fdiv x (fst (clamp_wsum (fsum prods))))
                        (take (if bg_fit = 0 then length w - 1 else length w) w)"
  using assms unfolding fit_finish_def Let_def
  by (auto split: sum.splits prod.splits if_splits)


lemma wkg: "kernel_grid (3 / 10) 0 = Inr ([0], [0], [0])"
  by (simp add: kernel_grid_def linspace_def Let_def)

lemma wpx: "filter (fit_aperture (Suc 0, Suc 0) (\<lambda>p. True) 0 0 50) (pixels (Suc 0, Suc 0)) = [(0, 0)]"
  by (simp add: fit_aperture_def coo_mat_def pixels_def)

lemma wd1: "fit_design1 (\<lambda>y x. 1) (Suc 0, Suc 0) (fit_aperture (Suc 0, Suc 0) (\<lambda>p. True) 0 0 50) (\<lambda>p. 1) 0 0 [0] [0] b
    = [[Fin 1]] @ (if b = 0 then [[Fin 1]] else [])"
  by (simp add: fit_design1_cols index_by_def wpx over_noise_def psf_on_frame_def)

lemma wd2: "fit_design2 [\<lambda>y x. 1] kvec (Suc 0, Suc 0) (fit_aperture (Suc 0, Suc 0) (\<lambda>p. True) 0 0 50) (\<lambda>p. 1) 0 0 [0] [0] b
    = [[fdiv (fadd (Fin 0) (fmul (kvec ! 0) (Fin 1))) (Fin 1)]] @ (if b = 0 then [[Fin 1]] else [])"
  by (simp add: fit_design2_cols index_by_def wpx over_noise_def psf_on_frame_def blurred_def)

lemma wp1: "fit_pass1 flaky flaky [\<lambda>y x. 1] (Suc 0, Suc 0) (\<lambda>p. 0) (\<lambda>p. 1)
     (fit_aperture (Suc 0, Suc 0) (\<lambda>p. True) 0 0 50) 0 0 [0] [0] 0 0 = (Inr [Fin 0, Fin 0], 2)"
  by (simp add: fit_pass1_def wd1 least_square_def flaky_def numeral_2_eq_2)

lemma wp2: "fit_pass2 flaky flaky [\<lambda>y x. 1] [Fin 0, Fin 0] (Suc 0, Suc 0) (\<lambda>p. 0) (\<lambda>p. 1)
     (fit_aperture (Suc 0, Suc 0) (\<lambda>p. True) 0 0 50) 0 0 [0] [0] 0 2 = (Inr [Fin 0, Fin 0], 3)"
  by (simp add: fit_pass2_def wd2 least_square_def flaky_def numeral_2_eq_2 numeral_3_eq_3)

lemma wfin: "fit_finish (unit_integral [\<lambda>y x. 1]) img [Fin 0, Fin 0] [Fin 0, Fin 0] (Suc 0) (Suc 0) 0
    = Inr (\<lparr>psf_image = img, background = Fin 0, kmat = [[Fin 0]], flux_scale = Fin 0,
            coeffs = [Fin 0]\<rparr>, [''Warning: wsum == 0 encountered''])"
  by (simp add: fit_finish_def unit_integral_def np_mul_def fsum_def clamp_wsum_def isnan_def
      reshape_square_def)

lemma wfit0: "fit flaky flaky unit_integral [\<lambda>y x. 1] (Suc 0, Suc 0) (\<lambda>p. 0) (\<lambda>p. 1) (\<lambda>p. True) 0 0 50 (3 / 10) 0 0 0
    = (Inr (\<lparr>psf_image = composite [\<lambda>y x. 1] [Fin 0, Fin 0] [Fin 0, Fin 0] 0 0 [0] [0],
              background = Fin 0, kmat = [[Fin 0]], flux_scale = Fin 0, coeffs = [Fin 0]\<rparr>,
            [''Warning: wsum == 0 encountered'']), 3)"
  by (simp add: fit_def wkg wp1 wp2 wfin Let_def)






text \<open>
  C5: when \<^verbatim>\<open>fit\<close> returns, the coefficient vector is \<open>w\<close> without its background element
  divided by the normaliser, which is the sum \<^verbatim>\<open>wsum\<close> of the products of the PSF integrals
  and those elements, or 1 if that sum is nan or zero, and a warning is printed exactly
  in that case; and once the two solves have given \<^verbatim>\<open>kvec\<close> and \<open>w\<close> and \<^verbatim>\<open>wsum\<close> is nan or
  zero, \<^verbatim>\<open>fit\<close> does return, with a warning and with the undivided elements of \<open>w\<close>.
\<close>

theorem fit_degenerate_normalizer:
  "(fit lstsq nnls psf_integral psf_list shp frame noise msk xc yc radius krn_scl krn_rad bg_fit s
      = (Inr (res, out), s')
    \<longrightarrow> (\<exists>xkern xk yk kvec s1 w prods.
           kernel_grid krn_scl krn_rad = Inr (xkern, xk, yk)
         \<and> fit_pass1 lstsq nnls psf_list shp frame noise (fit_aperture shp msk xc yc radius)
              xc yc xk yk bg_fit s = (Inr kvec, s1)
         \<and> fit_pass2 lstsq nnls psf_list kvec shp frame noise (fit_aperture shp msk xc yc radius)
              xc yc xk yk bg_fit s1 = (Inr w, s')
         \<and> np_mul (psf_integral psf_list) (take (if bg_fit = 0 then length w - 1 else length w) w)
              = Inr prods
         \<and> coeffs res =
             map (\<lambda>x. fdiv x (if isnan (fsum prods) \<or> fsum prods = Fin 0 then Fin 1 else fsum prods))
               (take (if bg_fit = 0 then length w - 1 else length w) w)
         \<and> (out \<noteq> []) = (isnan (fsum prods) \<or> fsum prods = Fin 0)))
   \<and> (fst shp = snd shp \<and> kernel_grid krn_scl krn_rad = Inr (xkern0, xk0, yk0) \<and> psf_list \<noteq> []
      \<and> fit_pass1 lstsq nnls psf_list shp frame noise (fit_aperture shp msk xc yc radius)
           xc yc xk0 yk0 bg_fit s = (Inr kvec0, t1)
      \<and> length xk0 \<le> length kvec0
      \<and> fit_pass2 lstsq nnls psf_list kvec0 shp frame noise (fit_aperture shp msk xc yc radius)
           xc yc xk0 yk0 bg_fit t1 = (Inr w0, t2)
      \<and> length psf_list \<le> length w0
      \<and> np_mul (psf_integral psf_list) (take (if bg_fit = 0 then length w0 - 1 else length w0) w0)
           = Inr prods0
      \<and> (isnan (fsum prods0) \<or> fsum prods0 = Fin 0)
    \<longrightarrow> (\<exists>res0 out0.
           fit lstsq nnls psf_integral psf_list shp frame noise msk xc yc radius krn_scl krn_rad bg_fit s
             = (Inr (res0, out0), t2)
         \<and> out0 \<noteq> []
         \<and> coeffs res0 = take (if bg_fit = 0 then length w0 - 1 else length w0) w0))"
proof (intro conjI impI)
  assume f: "fit lstsq nnls psf_integral psf_list shp frame noise msk xc yc radius krn_scl krn_rad bg_fit s
      = (Inr (res, out), s')"
  from fit_returns [OF f] obtain xkern xk yk kvec s1 w where
    r: "kernel_grid krn_scl krn_rad = Inr (xkern, xk, yk)"
      "fit_pass1 lstsq nnls psf_list shp frame noise (fit_aperture shp msk xc yc radius)
              xc yc xk yk bg_fit s = (Inr kvec, s1)"
      "fit_pass2 lstsq nnls psf_list kvec shp frame noise (fit_aperture shp msk xc yc radius)
              xc yc xk yk bg_fit s1 = (Inr w, s')"
      "fit_finish (psf_integral psf_list) (composite psf_list kvec w xc yc xk yk) kvec w
              (length xk) (length xkern) bg_fit = Inr (res, out)"
    by blast
  from fit_finish_Inr [OF r(4)] obtain prods where
    p: "np_mul (psf_integral psf_list) (take (if bg_fit = 0 then length w - 1 else length w) w) = Inr prods"
      "coeffs res = map (\<lambda>x. fdiv x (fst (clamp_wsum (fsum prods))))
                        (take (if bg_fit = 0 then length w - 1 else length w) w)"
      "out = snd (clamp_wsum (fsum prods))"
    by blast
  have c: "coeffs res =
             map (\<lambda>x. fdiv x (if isnan (fsum prods) \<or> fsum prods = Fin 0 then Fin 1 else fsum prods))
               (take (if bg_fit = 0 then length w - 1 else length w) w)"
    using p(2) by (simp add: clamp_wsum_cases)
  have o: "(out \<noteq> []) = (isnan (fsum prods) \<or> fsum prods = Fin 0)"
    using p(3) by (simp add: clamp_wsum_cases)
  show "\<exists>xkern xk yk kvec s1 w prods.
           kernel_grid krn_scl krn_rad = Inr (xkern, xk, yk)
         \<and> fit_pass1 lstsq nnls psf_list shp frame noise (fit_aperture shp msk xc yc radius)
              xc yc xk yk bg_fit s = (Inr kvec, s1)
         \<and> fit_pass2 lstsq nnls psf_list kvec shp frame noise (fit_aperture shp msk xc yc radius)
              xc yc xk yk bg_fit s1 = (Inr w, s')
         \<and> np_mul (psf_integral psf_list) (take (if bg_fit = 0 then length w - 1 else length w) w)
              = Inr prods
         \<and> coeffs res =
             map (\<lambda>x. fdiv x (if isnan (fsum prods) \<or> fsum prods = Fin 0 then Fin 1 else fsum prods))
               (take (if bg_fit = 0 then length w - 1 else length w) w)
         \<and> (out \<noteq> []) = (isnan (fsum prods) \<or> fsum prods = Fin 0)"
    using r(1) r(2) r(3) p(1) c o by blast
next
  assume a: "fst shp = snd shp \<and> kernel_grid krn_scl krn_rad = Inr (xkern0, xk0, yk0) \<and> psf_list \<noteq> []
      \<and> fit_pass1 lstsq nnls psf_list shp frame noise (fit_aperture shp msk xc yc radius)
           xc yc xk0 yk0 bg_fit s = (Inr kvec0, t1)
      \<and> length xk0 \<le> length kvec0
      \<and> fit_pass2 lstsq nnls psf_list kvec0 shp frame noise (fit_aperture shp msk xc yc radius)
           xc yc xk0 yk0 bg_fit t1 = (Inr w0, t2)
      \<and> length psf_list \<le> length w0
      \<and> np_mul (psf_integral psf_list) (take (if bg_fit = 0 then length w0 - 1 else length w0) w0)
           = Inr prods0
      \<and> (isnan (fsum prods0) \<or> fsum prods0 = Fin 0)"
  then have a1: "fst shp = snd shp"
    and a2: "kernel_grid krn_scl krn_rad = Inr (xkern0, xk0, yk0)"
    and a3: "psf_list \<noteq> []"
    and a4: "fit_pass1 lstsq nnls psf_list shp frame noise (fit_aperture shp msk xc yc radius)
           xc yc xk0 yk0 bg_fit s = (Inr kvec0, t1)"
    and a5: "length xk0 \<le> length kvec0"
    and a6: "fit_pass2 lstsq nnls psf_list kvec0 shp frame noise (fit_aperture shp msk xc yc radius)
           xc yc xk0 yk0 bg_fit t1 = (Inr w0, t2)"
    and a7: "length psf_list \<le> length w0"
    by blast+
  have f: "fit lstsq nnls psf_integral psf_list shp frame noise msk xc yc radius krn_scl krn_rad bg_fit s
           = (fit_finish (psf_integral psf_list) (composite psf_list kvec0 w0 xc yc xk0 yk0) kvec0 w0
                (length xk0) (length xkern0) bg_fit, t2)"
    using fit_reaches_finish [OF a1 a2 a3 a4 a5 a6 a7] .
  from a have m: "np_mul (psf_integral psf_list) (take (if bg_fit = 0 then length w0 - 1 else length w0) w0)
           = Inr prods0"
    by simp
  from fit_finish_total [OF m] obtain res0 where
    t: "fit_finish (psf_integral psf_list) (composite psf_list kvec0 w0 xc yc xk0 yk0) kvec0 w0
          (length xk0) (length xkern0) bg_fit = Inr (res0, snd (clamp_wsum (fsum prods0)))"
      "coeffs res0 = map (\<lambda>x. fdiv x (fst (clamp_wsum (fsum prods0))))
                        (take (if bg_fit = 0 then length w0 - 1 else length w0) w0)"
    by blast
  from a have d: "isnan (fsum prods0) \<or> fsum prods0 = Fin 0" by simp
  have "snd (clamp_wsum (fsum prods0)) \<noteq> []"
    using d by (auto simp: clamp_wsum_cases)
  moreover have "coeffs res0 = take (if bg_fit = 0 then length w0 - 1 else length w0) w0"
    using d t(2) by (auto simp: clamp_wsum_cases fdiv_one)
  ultimately show "\<exists>res0 out0.
           fit lstsq nnls psf_integral psf_list shp frame noise msk xc yc radius krn_scl krn_rad bg_fit s
             = (Inr (res0, out0), t2)
         \<and> out0 \<noteq> []
         \<and> coeffs res0 = take (if bg_fit = 0 then length w0 - 1 else length w0) w0"
    using f t(1) by auto
qed

lemma wmul: "np_mul (nan_integral [\<lambda>y x. 1]) (take (if (0::int) = 0 then length [Fin 0, Fin 0] - 1 else length [Fin 0, Fin 0]) [Fin 0, Fin 0])
    = Inr [NaN]"
  by (simp add: np_mul_def nan_integral_def)

lemma wnan: "isnan (fsum [NaN]) \<or> fsum [NaN] = Fin 0"
  by (simp add: isnan_def fsum_def)

lemma wp1o: "fit_pass1 ones_solver ones_solver [\<lambda>y x. 1] (Suc 0, Suc 0) (\<lambda>p. 2) (\<lambda>p. 1)
     (fit_aperture (Suc 0, Suc 0) (\<lambda>p. True) 0 0 50) 0 0 [0] [0] 0 2 = (Inr [Fin 1, Fin 1], 3)"
  by (simp add: fit_pass1_def wd1 least_square_def ones_solver_def)

lemma wp2o: "fit_pass2 ones_solver ones_solver [\<lambda>y x. 1] [Fin 1, Fin 1] (Suc 0, Suc 0) (\<lambda>p. 2) (\<lambda>p. 1)
     (fit_aperture (Suc 0, Suc 0) (\<lambda>p. True) 0 0 50) 0 0 [0] [0] 0 3 = (Inr [Fin 1, Fin 1], 4)"
  by (simp add: fit_pass2_def wd2 least_square_def ones_solver_def)

lemma wfino: "fit_finish (unit_integral [\<lambda>y x. 1]) img [Fin 1, Fin 1] [Fin 1, Fin 1] (Suc 0) (Suc 0) 0
    = Inr (\<lparr>psf_image = img, background = Fin 1, kmat = [[Fin 1]], flux_scale = Fin 1,
            coeffs = [Fin 1]\<rparr>, [])"
  by (simp add: fit_finish_def unit_integral_def np_mul_def fsum_def clamp_wsum_def isnan_def
      reshape_square_def)

lemma wfito: "fit ones_solver ones_solver unit_integral [\<lambda>y x. 1] (Suc 0, Suc 0) (\<lambda>p. 2) (\<lambda>p. 1)
     (\<lambda>p. True) 0 0 50 (3 / 10) 0 0 2
    = (Inr (\<lparr>psf_image = composite [\<lambda>y x. 1] [Fin 1, Fin 1] [Fin 1, Fin 1] 0 0 [0] [0],
              background = Fin 1, kmat = [[Fin 1]], flux_scale = Fin 1, coeffs = [Fin 1]\<rparr>,
            []), 4)"
  by (simp add: fit_def wkg wp1o wp2o wfino Let_def)

theorem fit_degenerate_normalizer_witness:
  "(\<exists>xkern xk yk kvec s1 w prods.
        kernel_grid (3 / 10) 0 = Inr (xkern, xk, yk)
      \<and> fit_pass1 flaky flaky [\<lambda>y x. 1] (Suc 0, Suc 0) (\<lambda>p. 0) (\<lambda>p. 1)
           (fit_aperture (Suc 0, Suc 0) (\<lambda>p. True) 0 0 50) 0 0 xk yk 0 0 = (Inr kvec, s1)
      \<and> fit_pass2 flaky flaky [\<lambda>y x. 1] kvec (Suc 0, Suc 0) (\<lambda>p. 0) (\<lambda>p. 1)
           (fit_aperture (Suc 0, Suc 0) (\<lambda>p. True) 0 0 50) 0 0 xk yk 0 s1 = (Inr w, 3)
      \<and> np_mul (unit_integral [\<lambda>y x. 1]) (take (if (0::int) = 0 then length w - 1 else length w) w)
           = Inr prods
      \<and> [Fin 0] =
          map (\<lambda>x. fdiv x (if isnan (fsum prods) \<or> fsum prods = Fin 0 then Fin 1 else fsum prods))
            (take (if (0::int) = 0 then length w - 1 else length w) w)
      \<and> ([''Warning: wsum == 0 encountered''] \<noteq> []) = (isnan (fsum prods) \<or> fsum prods = Fin 0))
   \<and> (\<exists>xkern xk yk kvec s1 w prods.
        kernel_grid (3 / 10) 0 = Inr (xkern, xk, yk)
      \<and> fit_pass1 ones_solver ones_solver [\<lambda>y x. 1] (Suc 0, Suc 0) (\<lambda>p. 2) (\<lambda>p. 1)
           (fit_aperture (Suc 0, Suc 0) (\<lambda>p. True) 0 0 50) 0 0 xk yk 0 2 = (Inr kvec, s1)
      \<and> fit_pass2 ones_solver ones_solver [\<lambda>y x. 1] kvec (Suc 0, Suc 0) (\<lambda>p. 2) (\<lambda>p. 1)
           (fit_aperture (Suc 0, Suc 0) (\<lambda>p. True) 0 0 50) 0 0 xk yk 0 s1 = (Inr w, 4)
      \<and> np_mul (unit_integral [\<lambda>y x. 1]) (take (if (0::int) = 0 then length w - 1 else length w) w)
           = Inr prods
      \<and> [Fin 1] =
          map (\<lambda>x. fdiv x (if isnan (fsum prods) \<or> fsum prods = Fin 0 then Fin 1 else fsum prods))
            (take (if (0::int) = 0 then length w - 1 else length w) w)
      \<and> (([]::string list) \<noteq> []) = (isnan (fsum prods) \<or> fsum prods = Fin 0))
   \<and> (\<exists>res0 out0.
        fit flaky flaky nan_integral [\<lambda>y x. 1] (Suc 0, Suc 0) (\<lambda>p. 0) (\<lambda>p. 1) (\<lambda>p. True)
          0 0 50 (3 / 10) 0 0 0 = (Inr (res0, out0), 3)
      \<and> out0 \<noteq> []
      \<and> coeffs res0 = [Fin 0])"
  using fit_degenerate_normalizer [where lstsq = flaky and nnls = flaky
      and psf_integral = unit_integral and psf_list = "[\<lambda>y x. 1]" and shp = "(Suc 0, Suc 0)"
      and frame = "\<lambda>p. 0" and noise = "\<lambda>p. 1" and msk = "\<lambda>p. True" and xc = 0 and yc = 0
      and radius = 50 and krn_scl = "3 / 10" and krn_rad = 0 and bg_fit = 0 and s = 0 and s' = 3
      and res = "\<lparr>psf_image = composite [\<lambda>y x. 1] [Fin 0, Fin 0] [Fin 0, Fin 0] 0 0 [0] [0],
              background = Fin 0, kmat = [[Fin 0]], flux_scale = Fin 0, coeffs = [Fin 0]\<rparr>"
      and out = "[''Warning: wsum == 0 encountered'']"]
    fit_degenerate_normalizer [where lstsq = ones_solver and nnls = ones_solver
      and psf_integral = unit_integral and psf_list = "[\<lambda>y x. 1]" and shp = "(Suc 0, Suc 0)"
      and frame = "\<lambda>p. 2" and noise = "\<lambda>p. 1" and msk = "\<lambda>p. True" and xc = 0 and yc = 0
      and radius = 50 and krn_scl = "3 / 10" and krn_rad = 0 and bg_fit = 0 and s = 2 and s' = 4
      and res = "\<lparr>psf_image = composite [\<lambda>y x. 1] [Fin 1, Fin 1] [Fin 1, Fin 1] 0 0 [0] [0],
              background = Fin 1, kmat = [[Fin 1]], flux_scale = Fin 1, coeffs = [Fin 1]\<rparr>"
      and out = "[]"]
    fit_degenerate_normalizer [where lstsq = flaky and nnls = flaky
      and psf_integral = nan_integral and psf_list = "[\<lambda>y x. 1]" and shp = "(Suc 0, Suc 0)"
      and frame = "\<lambda>p. 0" and noise = "\<lambda>p. 1" and msk = "\<lambda>p. True" and xc = 0 and yc = 0
      and radius = 50 and krn_scl = "3 / 10" and krn_rad = 0 and bg_fit = 0 and s = 0
      and ?xkern0.0 = "[0]" and ?xk0.0 = "[0]" and ?yk0.0 = "[0]" and ?kvec0.0 = "[Fin 0, Fin 0]"
      and ?t1.0 = 2 and ?w0.0 = "[Fin 0, Fin 0]" and ?t2.0 = 3 and ?prods0.0 = "[NaN]"]
    wfit0 wfito wkg wp1 wp2 wmul wnan
  by simp

lemma fold_set_col2:
  assumes "k \<le> N" and "N + k \<le> length M"
  shows "length (fold (\<lambda>n M. set_col (set_col M n (f n)) (n + N) (g n)) [0..<k] M) = length M
       \<and> (\<forall>i<length M.
            fold (\<lambda>n M. set_col (set_col M n (f n)) (n + N) (g n)) [0..<k] M ! i =
              (if i < k then f i else if N \<le> i \<and> i < N + k then g (i - N) else M ! i))"
  using assms
proof (induction k)
  case 0
  then show ?case by auto
next
  case (Suc k)
  define R where "R = fold (\<lambda>n M. set_col (set_col M n (f n)) (n + N) (g n)) [0..<k] M"
  have ih: "length R = length M"
    "\<And>i. i < length M \<Longrightarrow> R ! i = (if i < k then f i else if N \<le> i \<and> i < N + k then g (i - N) else M ! i)"
    using Suc by (simp_all add: R_def)
  have step: "fold (\<lambda>n M. set_col (set_col M n (f n)) (n + N) (g n)) [0..<Suc k] M
      = (R[k := f k])[k + N := g k]"
    by (simp add: R_def set_col_def)
  have "(R[k := f k])[k + N := g k] ! i =
      (if i < Suc k then f i else if N \<le> i \<and> i < N + Suc k then g (i - N) else M ! i)"
    if "i < length M" for i
  proof -
    have kN: "k < N" using Suc.prems by simp
    consider "i = k + N" | "i = k" | "i \<noteq> k + N" "i \<noteq> k" by blast
    then show ?thesis
    proof cases
      case 1
      then show ?thesis using that ih kN by simp
    next
      case 2
      then show ?thesis using that ih kN by simp
    next
      case 3
      then show ?thesis using that ih kN by (auto simp: nth_list_update)
    qed
  qed
  then show ?case
    unfolding step using ih(1) by simp
qed

lemma binary_design_cols:
  "binary_design N shp aperture noise psf0 psf1 =
     map (\<lambda>n. over_noise (index_by aperture shp (psf0 n)) (index_by aperture shp noise)) [0..<N]
     @ map (\<lambda>n. over_noise (index_by aperture shp (psf1 n)) (index_by aperture shp noise)) [0..<N]
     @ [map (\<lambda>nv. fdiv (Fin 1) (Fin nv)) (index_by aperture shp noise)]"
proof -
  define nvec where "nvec = index_by aperture shp noise"
  define f where "f = (\<lambda>n. over_noise (index_by aperture shp (psf0 n)) nvec)"
  define g where "g = (\<lambda>n. over_noise (index_by aperture shp (psf1 n)) nvec)"
  define c where "c = map (\<lambda>nv. fdiv (Fin 1) (Fin nv)) nvec"
  define M where "M = set_col (np_zeros (length nvec) (2 * N + 1)) (2 * N) c"
  define R where "R = fold (\<lambda>n M. set_col (set_col M n (f n)) (n + N) (g n)) [0..<N] M"
  have lZ: "length (np_zeros (length nvec) (2 * N + 1)) = 2 * N + 1"
    by (simp only: np_zeros_def length_replicate)
  have lM: "length M = 2 * N + 1"
    by (simp only: M_def set_col_def length_list_update lZ)
  have "2 * N < length (np_zeros (length nvec) (2 * N + 1))"
    unfolding lZ by simp
  then have Ml: "M ! (2 * N) = c"
    by (simp only: M_def set_col_def nth_list_update_eq)
  have "N + N \<le> length M" using lM by simp
  from fold_set_col2 [OF le_refl this, of f g]
  have lR: "length R = 2 * N + 1"
    and nR: "\<And>i. i < 2 * N + 1 \<Longrightarrow>
        R ! i = (if i < N then f i else if N \<le> i \<and> i < N + N then g (i - N) else M ! i)"
    by (simp_all add: R_def lM)
  have "R = map f [0..<N] @ map g [0..<N] @ [c]"
  proof (rule nth_equalityI)
    show "length R = length (map f [0..<N] @ map g [0..<N] @ [c])"
      by (simp add: lR)
  next
    fix i assume "i < length R"
    then have i: "i < 2 * N + 1" by (simp add: lR)
    consider "i < N" | "N \<le> i" "i < N + N" | "i = 2 * N" using i by linarith
    then show "R ! i = (map f [0..<N] @ map g [0..<N] @ [c]) ! i"
    proof cases
      case 1
      then show ?thesis using nR [OF i] by (simp add: nth_append)
    next
      case 2
      then have "i - N < N" by linarith
      then show ?thesis using 2 nR [OF i] by (simp add: nth_append)
    next
      case 3
      then show ?thesis using nR [OF i] Ml by (simp add: nth_append)
    qed
  qed
  then show ?thesis
    unfolding binary_design_def Let_def R_def M_def f_def g_def c_def nvec_def .
qed

lemma bpx: "filter (binary_aperture (Suc 0, Suc 0) None 0 0 0 0 30) (pixels (Suc 0, Suc 0)) = [(0, 0)]"
  by (simp add: binary_aperture_def coo_mat_def pixels_def)

lemma bapt: "psf_disk (Suc 0, Suc 0) 0 0 70 (0, 0)"
  by (simp add: psf_disk_def coo_mat_def)

lemma bd: "binary_design (Suc 0) (Suc 0, Suc 0) (binary_aperture (Suc 0, Suc 0) None 0 0 0 0 30) (\<lambda>p. 1) f g
    = [[fdiv (f 0 (0, 0)) (Fin 1)], [fdiv (g 0 (0, 0)) (Fin 1)], [Fin 1]]"
  by (simp add: binary_design_cols index_by_def bpx over_noise_def)

lemma bsolve: "least_square flaky flaky [a, b, c] [Fin 0] False (Suc k) = (Inr [Fin 0, Fin 0, Fin 0], Suc (Suc k))"
  by (simp add: least_square_def flaky_def)

lemma bsolve0: "least_square flaky flaky [a, b, c] [Fin 0] False 0 = (Inr [Fin 0, Fin 0, Fin 0], Suc (Suc 0))"
  by (simp add: least_square_def flaky_def)

lemma bfin: "binary_finish (unit_integral [\<lambda>y x. 1]) (unit_integral [\<lambda>y x. 1]) im0 im1
     [Fin 0, Fin 0, Fin 0] [Fin 0, Fin 0, Fin 0] (Suc 0) (Suc 0) (Suc 0)
    = Inr \<lparr>psf_image0 = im0, psf_image1 = im1, background2 = Fin 0, kmat0 = [[Fin 0]],
           kmat1 = [[Fin 0]], flux_scale0 = Fin 0, flux_scale1 = Fin 0,
           coeffs0 = [NaN], coeffs1 = [NaN]\<rparr>"
  by (simp add: binary_finish_def unit_integral_def np_mul_def fsum_def py_slice_def
      reshape_square_def inf_of_def Let_def)

text \<open>
  C1 (which the code does not satisfy): \<^verbatim>\<open>fit_binary\<close> divides by \<^verbatim>\<open>wsum0\<close> and \<^verbatim>\<open>wsum1\<close>
  without the test that \<^verbatim>\<open>fit\<close> makes. On a frame of zeros, with a solver that returns the
  zero solution, both sums are zero and both coefficient vectors returned are nan (zero
  over zero), where \<^verbatim>\<open>fit\<close> on the same frame prints its warning and divides by one.
\<close>

theorem fit_binary_zero_frame_nan:
  "(\<exists>res. fit_binary flaky flaky unit_integral [\<lambda>y x. 1] [\<lambda>y x. 1] (Suc 0, Suc 0) (\<lambda>p. 0) (\<lambda>p. 1) None
            0 0 0 0 70 30 (3 / 10) 0 0 = (Inr res, 4)
       \<and> coeffs0 res = [NaN] \<and> coeffs1 res = [NaN])
   \<and> (\<exists>res out. fit flaky flaky unit_integral [\<lambda>y x. 1] (Suc 0, Suc 0) (\<lambda>p. 0) (\<lambda>p. 1) (\<lambda>p. True)
            0 0 50 (3 / 10) 0 0 0 = (Inr (res, out), 3)
       \<and> coeffs res = [Fin 0] \<and> out = [''Warning: wsum == 0 encountered''])"
  by (simp add: fit_binary_def wkg Let_def bd bsolve bsolve0 bfin index_by_def bpx over_noise_def
      numeral_eq_Suc wfit0)















end
